theory Spec2Isabelle
  imports Main "HOL-Library.Sublist"
begin

section \<open>Values\<close>

text \<open>
  The values that \<^verbatim>\<open>json.loads\<close> produces and \<^verbatim>\<open>json.dumps\<close> accepts. Python's
  \<^verbatim>\<open>None\<close> is \<open>JNull\<close>. A dict is an association list in insertion order, read with
  \<open>map_of\<close>. A float is carried by the text that \<^verbatim>\<open>repr\<close> prints for it: no operation of
  the client computes with one. Strings are sequences of code points below 256.
\<close>

datatype json =
    JNull
  | JBool bool
  | JInt int
  | JFloat string
  | JStr string
  | JArr "json list"
  | JObj "(string \<times> json) list"

type_synonym pydict = "(string \<times> json) list"

text \<open>The exception classes met in \<^verbatim>\<open>marstek_api.py\<close>: what the socket layer, the
  executor and the \<^verbatim>\<open>json\<close> module raise, and what a wrong type raises. Every one derives
  from \<^verbatim>\<open>Exception\<close>; \<open>SocketTimeout\<close> is \<^verbatim>\<open>socket.timeout\<close>. The cancellation of the
  task, which is no \<^verbatim>\<open>Exception\<close> and which no handler of the client takes, belongs to the
  scheduler and is left out.\<close>

datatype exn =
    SocketTimeout
  | ConnectionResetError
  | OSError
  | JSONDecodeError
  | TypeError
  | AttributeError
  | RuntimeError
  | RecursionError

text \<open>\<^verbatim>\<open>except OSError\<close>: \<^verbatim>\<open>socket.timeout\<close> and \<^verbatim>\<open>ConnectionResetError\<close> are subclasses
  of \<^verbatim>\<open>OSError\<close>.\<close>

fun is_OSError :: "exn \<Rightarrow> bool" where
  "is_OSError SocketTimeout = True"
| "is_OSError ConnectionResetError = True"
| "is_OSError OSError = True"
| "is_OSError _ = False"

text \<open>The outcome of a call: it returns a value or raises.\<close>

datatype 'a res = Returned 'a | Raised exn

text \<open>Truth value of an object, as \<^verbatim>\<open>if x:\<close>, \<^verbatim>\<open>not x\<close> and \<^verbatim>\<open>x or y\<close> test it.\<close>

fun truthy :: "json \<Rightarrow> bool" where
  "truthy JNull = False"
| "truthy (JBool b) = b"
| "truthy (JInt i) = (i \<noteq> 0)"
| "truthy (JFloat r) = (r \<noteq> ''0.0'' \<and> r \<noteq> ''-0.0'')"
| "truthy (JStr s) = (s \<noteq> [])"
| "truthy (JArr xs) = (xs \<noteq> [])"
| "truthy (JObj kvs) = (kvs \<noteq> [])"

text \<open>\<^verbatim>\<open>d.get(key, default)\<close> on a dict.\<close>

definition dict_get :: "pydict \<Rightarrow> string \<Rightarrow> json \<Rightarrow> json" where
  "dict_get d k dflt = (case map_of d k of None \<Rightarrow> dflt | Some v \<Rightarrow> v)"

text \<open>\<^verbatim>\<open>x.get(key)\<close> on any object: only a dict has the method.\<close>

fun py_get :: "json \<Rightarrow> string \<Rightarrow> json res" where
  "py_get (JObj kvs) k = Returned (dict_get kvs k JNull)"
| "py_get _ k = Raised AttributeError"

section \<open>Serialisation\<close>

text \<open>
  \<^verbatim>\<open>json.dumps(request, separators=(',', ':'))\<close> of the standard library, with its
  default \<^verbatim>\<open>ensure_ascii=True\<close>: inside a string the quote and the backslash are escaped,
  the control characters with a short escape take it, and every other character outside
  the range from the space to the tilde is written \<^verbatim>\<open>\uXXXX\<close>.
\<close>

definition hex_digit :: "nat \<Rightarrow> char" where
  "hex_digit n = ''0123456789abcdef'' ! (n mod 16)"

definition escape_char :: "char \<Rightarrow> string" where
  "escape_char c =
     (if c = CHR 0x22 then [CHR 0x5C, CHR 0x22]
      else if c = CHR 0x5C then [CHR 0x5C, CHR 0x5C]
      else if c = CHR 0x0A then [CHR 0x5C, CHR ''n'']
      else if c = CHR 0x0D then [CHR 0x5C, CHR ''r'']
      else if c = CHR 0x09 then [CHR 0x5C, CHR ''t'']
      else if c = CHR 0x08 then [CHR 0x5C, CHR ''b'']
      else if c = CHR 0x0C then [CHR 0x5C, CHR ''f'']
      else if 32 \<le> (of_char c :: nat) \<and> (of_char c :: nat) \<le> 126 then [c]
      else [CHR 0x5C, CHR ''u'', CHR ''0'', CHR ''0'',
            hex_digit (of_char c div 16), hex_digit (of_char c)])"

definition dumps_str :: "string \<Rightarrow> string" where
  "dumps_str s = [CHR 0x22] @ concat (map escape_char s) @ [CHR 0x22]"

fun digits :: "nat \<Rightarrow> string" where
  "digits n = (if n < 10 then [''0123456789'' ! n]
               else digits (n div 10) @ [''0123456789'' ! (n mod 10)])"

declare digits.simps [simp del]

definition dumps_int :: "int \<Rightarrow> string" where
  "dumps_int i = (if i < 0 then CHR ''-'' # digits (nat (- i)) else digits (nat i))"

text \<open>Joining the items of a list or dict with the item separator \<^verbatim>\<open>','\<close>.\<close>

fun join_comma :: "string list \<Rightarrow> string" where
  "join_comma [] = []"
| "join_comma [x] = x"
| "join_comma (x # y # ys) = x @ '','' @ join_comma (y # ys)"

fun dumps :: "json \<Rightarrow> string" where
  "dumps JNull = ''null''"
| "dumps (JBool b) = (if b then ''true'' else ''false'')"
| "dumps (JInt i) = dumps_int i"
| "dumps (JFloat r) = r"
| "dumps (JStr s) = dumps_str s"
| "dumps (JArr xs) = ''['' @ join_comma (map dumps xs) @ '']''"
| "dumps (JObj kvs) =
     ''{'' @ join_comma (map (\<lambda>kv. dumps_str (fst kv) @ '':'' @ dumps (snd kv)) kvs) @ ''}''"

section \<open>Requests\<close>

text \<open>The command names of \<^verbatim>\<open>const.py\<close>.\<close>

definition CMD_GET_DEVICE :: string where "CMD_GET_DEVICE = ''Marstek.GetDevice''"
definition CMD_WIFI_STATUS :: string where "CMD_WIFI_STATUS = ''Wifi.GetStatus''"
definition CMD_BLE_STATUS :: string where "CMD_BLE_STATUS = ''BLE.GetStatus''"
definition CMD_BAT_STATUS :: string where "CMD_BAT_STATUS = ''Bat.GetStatus''"
definition CMD_PV_STATUS :: string where "CMD_PV_STATUS = ''PV.GetStatus''"
definition CMD_ES_STATUS :: string where "CMD_ES_STATUS = ''ES.GetStatus''"
definition CMD_ES_SET_MODE :: string where "CMD_ES_SET_MODE = ''ES.SetMode''"
definition CMD_ES_GET_MODE :: string where "CMD_ES_GET_MODE = ''ES.GetMode''"

definition ES_MODES :: "string list" where
  "ES_MODES = [''Auto'', ''AI'', ''Manual'', ''Passive'']"

text \<open>
  The request of \<^verbatim>\<open>_send_command\<close> (\<^verbatim>\<open>marstek_api.py\<close>, lines 101 to 109):
  \<^verbatim>\<open>params or {}\<close>, then the default \<^verbatim>\<open>{"ble_mac": "0"}\<close> when that is empty.
\<close>

definition request_params :: "pydict option \<Rightarrow> pydict" where
  "request_params params =
     (let p = (case params of None \<Rightarrow> [] | Some d \<Rightarrow> if d \<noteq> [] then d else [])
      in if p = [] then [(''ble_mac'', JStr ''0'')] else p)"

definition build_request :: "string \<Rightarrow> pydict option \<Rightarrow> json" where
  "build_request command params =
     JObj [(''id'', JInt 1), (''method'', JStr command),
           (''params'', JObj (request_params params))]"

text \<open>Line 111: the datagram is the compact serialisation of the request.\<close>

definition build_message :: "string \<Rightarrow> pydict option \<Rightarrow> string" where
  "build_message command params = dumps (build_request command params)"

section \<open>The client and its environment\<close>

text \<open>
  What the socket layer and the device do is given by scripts that the calls consume in
  program order, one script for each kind of call: an entry \<open>None\<close> lets the call succeed,
  \<open>Some e\<close> makes it raise \<open>e\<close>, and a call that finds its script empty succeeds. A
  \<^verbatim>\<open>recvfrom\<close> that finds its script empty times out: the device is silent.
  The reply is given by what \<^verbatim>\<open>decode('utf-8', errors='ignore')\<close> and \<^verbatim>\<open>json.loads\<close>
  make of the datagram: a value, or an exception (\<open>JSONDecodeError\<close> for a payload that is
  not JSON).
\<close>

datatype payload = Parses json | LoadsRaises exn

datatype recv = Datagram payload | RecvRaises exn

text \<open>
  The fields \<^verbatim>\<open>host\<close>, \<^verbatim>\<open>port\<close>, \<^verbatim>\<open>local_port\<close>, \<^verbatim>\<open>_sock\<close> and \<^verbatim>\<open>_connected\<close> of
  \<^verbatim>\<open>MarstekAPI\<close>, followed by the state of the operating system (how many sockets were
  created, which of them no \<^verbatim>\<open>close\<close> was called on, the datagrams handed to the
  network with their destination) and the scripts. A socket is named by its number of
  creation, and stays open until \<^verbatim>\<open>close\<close> is called on it: the finaliser that an
  interpreter may run on a socket object that nothing refers to is left out. The receive
  timeout is a duration and has no field.
\<close>

record world =
  host :: string
  port :: int
  local_port :: int
  sock :: "nat option"
  connected :: bool
  created :: nat
  os_open :: "nat list"
  sent :: "(string \<times> string \<times> int) list"
  socket_faults :: "exn option list"
  bind_faults :: "exn option list"
  getsockname_faults :: "exn option list"
  sendto_faults :: "exn option list"
  recv_script :: "recv list"
  close_faults :: "exn option list"

text \<open>\<^verbatim>\<open>MarstekAPI.__init__\<close>, in an environment where nothing fails and the device
  is silent.\<close>

definition new_api :: "string \<Rightarrow> int \<Rightarrow> int \<Rightarrow> world" where
  "new_api h p lp =
     \<lparr> host = h, port = p, local_port = lp, sock = None, connected = False,
       created = 0, os_open = [], sent = [],
       socket_faults = [], bind_faults = [], getsockname_faults = [],
       sendto_faults = [], recv_script = [], close_faults = [] \<rparr>"

fun next_fault :: "exn option list \<Rightarrow> exn option \<times> exn option list" where
  "next_fault [] = (None, [])"
| "next_fault (x # xs) = (x, xs)"

text \<open>\<^verbatim>\<open>socket.socket(socket.AF_INET, socket.SOCK_DGRAM)\<close>\<close>

definition socket_socket :: "world \<Rightarrow> nat res \<times> world" where
  "socket_socket w =
     (case next_fault (socket_faults w) of
        (Some e, r) \<Rightarrow> (Raised e, w\<lparr>socket_faults := r\<rparr>)
      | (None, r) \<Rightarrow>
          (Returned (created w),
           w\<lparr>socket_faults := r, created := Suc (created w),
             os_open := os_open w @ [created w]\<rparr>))"

text \<open>\<^verbatim>\<open>self._sock.bind(('', port))\<close>\<close>

definition sock_bind :: "int \<Rightarrow> world \<Rightarrow> unit res \<times> world" where
  "sock_bind p w =
     (case next_fault (bind_faults w) of
        (Some e, r) \<Rightarrow> (Raised e, w\<lparr>bind_faults := r\<rparr>)
      | (None, r) \<Rightarrow> (Returned (), w\<lparr>bind_faults := r\<rparr>))"

text \<open>\<^verbatim>\<open>self._sock.getsockname()[1] if self._sock else "unknown"\<close>, an argument of a
  logging call of the try block, evaluated before the datagram is sent.\<close>

definition sock_getsockname :: "world \<Rightarrow> unit res \<times> world" where
  "sock_getsockname w =
     (case sock w of
        None \<Rightarrow> (Returned (), w)
      | Some fd \<Rightarrow>
          (case next_fault (getsockname_faults w) of
             (Some e, r) \<Rightarrow> (Raised e, w\<lparr>getsockname_faults := r\<rparr>)
           | (None, r) \<Rightarrow> (Returned (), w\<lparr>getsockname_faults := r\<rparr>)))"

text \<open>\<^verbatim>\<open>run_in_executor(None, self._sock.sendto, message, (self.host, self.port))\<close>;
  on \<^verbatim>\<open>None\<close> the attribute \<^verbatim>\<open>sendto\<close> does not exist.\<close>

definition sock_sendto :: "string \<Rightarrow> world \<Rightarrow> unit res \<times> world" where
  "sock_sendto message w =
     (case sock w of
        None \<Rightarrow> (Raised AttributeError, w)
      | Some fd \<Rightarrow>
          (case next_fault (sendto_faults w) of
             (Some e, r) \<Rightarrow> (Raised e, w\<lparr>sendto_faults := r\<rparr>)
           | (None, r) \<Rightarrow>
               (Returned (),
                w\<lparr>sendto_faults := r, sent := sent w @ [(message, host w, port w)]\<rparr>)))"

text \<open>\<^verbatim>\<open>run_in_executor(None, self._sock.recvfrom, 4096)\<close>\<close>

definition sock_recvfrom :: "world \<Rightarrow> payload res \<times> world" where
  "sock_recvfrom w =
     (case sock w of
        None \<Rightarrow> (Raised AttributeError, w)
      | Some fd \<Rightarrow>
          (case recv_script w of
             [] \<Rightarrow> (Raised SocketTimeout, w)
           | Datagram d # r \<Rightarrow> (Returned d, w\<lparr>recv_script := r\<rparr>)
           | RecvRaises e # r \<Rightarrow> (Raised e, w\<lparr>recv_script := r\<rparr>)))"

text \<open>\<^verbatim>\<open>json.loads(response_data.decode('utf-8', errors='ignore'))\<close>\<close>

fun json_loads :: "payload \<Rightarrow> json res" where
  "json_loads (Parses v) = Returned v"
| "json_loads (LoadsRaises e) = Raised e"

text \<open>\<^verbatim>\<open>self._sock.close()\<close>: the descriptor is released also when the call raises.\<close>

definition sock_close :: "nat \<Rightarrow> world \<Rightarrow> unit res \<times> world" where
  "sock_close fd w =
     (case next_fault (close_faults w) of
        (Some e, r) \<Rightarrow>
          (Raised e, w\<lparr>close_faults := r, os_open := removeAll fd (os_open w)\<rparr>)
      | (None, r) \<Rightarrow>
          (Returned (), w\<lparr>close_faults := r, os_open := removeAll fd (os_open w)\<rparr>))"

section \<open>The request and response cycle\<close>

text \<open>
  Lines 144 to 152 of \<^verbatim>\<open>_send_command\<close>: the dispatch on the parsed response.
  \<^verbatim>\<open>"result" in response\<close> is a key test on a dict, an element test on a list, a
  substring test on a string and a \<^verbatim>\<open>TypeError\<close> on every other value; indexing a list
  or a string with a string is a \<^verbatim>\<open>TypeError\<close>. The argument
  \<^verbatim>\<open>list(response["result"].keys())\<close> of the logging call is evaluated before the
  return: only a dict has \<^verbatim>\<open>keys\<close>.
\<close>

fun dispatch :: "json \<Rightarrow> json res" where
  "dispatch (JObj kvs) =
     (case map_of kvs ''result'' of
        Some r \<Rightarrow> (case r of JObj ks \<Rightarrow> Returned r | _ \<Rightarrow> Raised AttributeError)
      | None \<Rightarrow>
          (case map_of kvs ''error'' of
             Some e \<Rightarrow> Returned JNull
           | None \<Rightarrow> Returned (JObj kvs)))"
| "dispatch (JArr xs) =
     (if JStr ''result'' \<in> set xs then Raised TypeError
      else if JStr ''error'' \<in> set xs then Raised TypeError
      else Returned (JArr xs))"
| "dispatch (JStr s) =
     (if sublist ''result'' s then Raised TypeError
      else if sublist ''error'' s then Raised TypeError
      else Returned (JStr s))"
| "dispatch v = Raised TypeError"

text \<open>Lines 127 to 164: the inner try block with its two handlers.\<close>

definition receive_response :: "world \<Rightarrow> json res \<times> world" where
  "receive_response w =
     (case (case sock_recvfrom w of
              (Raised e, w1) \<Rightarrow> (Raised e, w1)
            | (Returned response_data, w1) \<Rightarrow>
                (case json_loads response_data of
                   Raised e \<Rightarrow> (Raised e, w1)
                 | Returned response \<Rightarrow> (dispatch response, w1))) of
        (Raised e, w2) \<Rightarrow>
          if e = SocketTimeout then (Returned JNull, w2)
          else if e = ConnectionResetError then (Returned JNull, w2)
          else (Raised e, w2)
      | (Returned v, w2) \<Rightarrow> (Returned v, w2))"

text \<open>Lines 97 to 174: the outer try block. Both of its handlers return \<^verbatim>\<open>None\<close>, and
  \<^verbatim>\<open>except Exception\<close> takes every exception that \<^verbatim>\<open>except json.JSONDecodeError\<close> leaves.\<close>

definition send_try :: "string \<Rightarrow> pydict option \<Rightarrow> world \<Rightarrow> json res \<times> world" where
  "send_try command params w =
     (case (let message = build_message command params in
            case sock_getsockname w of
              (Raised e, w1) \<Rightarrow> (Raised e, w1)
            | (Returned u, w1) \<Rightarrow>
                (case sock_sendto message w1 of
                   (Raised e, w2) \<Rightarrow> (Raised e, w2)
                 | (Returned u', w2) \<Rightarrow> receive_response w2)) of
        (Raised e, w3) \<Rightarrow>
          if e = JSONDecodeError then (Returned JNull, w3) else (Returned JNull, w3)
      | (Returned v, w3) \<Rightarrow> (Returned v, w3))"

text \<open>
  \<^verbatim>\<open>connect\<close> (lines 44 to 75), \<^verbatim>\<open>get_device_info\<close> (lines 176 to 178) and
  \<^verbatim>\<open>_send_command\<close> (lines 89 to 174) call each other: \<^verbatim>\<open>_send_command\<close> connects
  when the client holds no socket, and \<^verbatim>\<open>connect\<close> probes the device with
  \<^verbatim>\<open>get_device_info\<close> once it has stored its new socket. In \<^verbatim>\<open>connect\<close> the inner
  handler retries the bind on port 0 after an \<^verbatim>\<open>OSError\<close>, and both outer handlers
  return \<^verbatim>\<open>False\<close>.
\<close>

function connect :: "world \<Rightarrow> bool res \<times> world"
  and get_device_info :: "world \<Rightarrow> json res \<times> world"
  and send_command :: "string \<Rightarrow> pydict option \<Rightarrow> world \<Rightarrow> json res \<times> world"
where
  "connect w =
     (case (case socket_socket w of
              (Raised e, w1) \<Rightarrow> (Raised e, w1)
            | (Returned fd, w1) \<Rightarrow>
                (case (case sock_bind (local_port w1) (w1\<lparr>sock := Some fd\<rparr>) of
                         (Raised e, w2) \<Rightarrow>
                           if is_OSError e then sock_bind 0 w2 else (Raised e, w2)
                       | (Returned u, w2) \<Rightarrow> (Returned u, w2)) of
                   (Raised e, w3) \<Rightarrow> (Raised e, w3)
                 | (Returned u, w3) \<Rightarrow>
                     (case get_device_info (w3\<lparr>connected := True\<rparr>) of
                        (Raised e, w4) \<Rightarrow> (Raised e, w4)
                      | (Returned device_info, w4) \<Rightarrow>
                          if truthy device_info then (Returned True, w4)
                          else (Returned False, w4)))) of
        (Raised e, w5) \<Rightarrow>
          if is_OSError e then (Returned False, w5) else (Returned False, w5)
      | (Returned b, w5) \<Rightarrow> (Returned b, w5))"
| "get_device_info w = send_command CMD_GET_DEVICE None w"
| "send_command command params w =
     (if sock w = None then
        (case connect w of
           (Raised e, w1) \<Rightarrow> (Raised e, w1)
         | (Returned ok, w1) \<Rightarrow>
             if \<not> ok then (Returned JNull, w1) else send_try command params w1)
      else send_try command params w)"
  by pat_completeness auto
termination
proof (relation "measure (\<lambda>x. case x of
            Inl w \<Rightarrow> 2
          | Inr (Inl w) \<Rightarrow> (if sock w = None then 4 else 1)
          | Inr (Inr (c, p, w)) \<Rightarrow> (if sock w = None then 3 else 0))", goal_cases)
  case 1
  show ?case by simp
next
  case (2 w x1 w1 fd x1a w3 u)
  have keep: "sock (snd (sock_bind p v)) = sock v" for p v
    by (cases "next_fault (bind_faults v)")
       (auto simp: sock_bind_def split: option.splits)
  have "sock w3 = Some fd"
  proof (cases "sock_bind (local_port w1) (w1\<lparr>sock := Some fd\<rparr>)")
    case (Pair r w2)
    have w2: "sock w2 = Some fd"
      using keep [of "local_port w1" "w1\<lparr>sock := Some fd\<rparr>"] Pair by simp
    show ?thesis
    proof (cases r)
      case (Returned u')
      with Pair 2 w2 show ?thesis by simp
    next
      case (Raised e)
      show ?thesis
      proof (cases "is_OSError e")
        case True
        with Pair Raised 2 have "sock_bind 0 w2 = (x1a, w3)"
          by simp
        then have "w3 = snd (sock_bind 0 w2)"
          by simp
        with w2 keep [of 0 w2] show ?thesis by simp
      next
        case False
        with Pair Raised 2 show ?thesis by simp
      qed
    qed
  qed
  then show ?case by simp
next
  case 3
  show ?case by simp
next
  case 4
  then show ?case by simp
qed

declare connect.simps [simp del] get_device_info.simps [simp del] send_command.simps [simp del]

text \<open>\<^verbatim>\<open>disconnect\<close> (lines 77 to 87): the handler takes every exception of
  \<^verbatim>\<open>close\<close>, and the \<^verbatim>\<open>finally\<close> clause clears both fields on each path.\<close>

definition disconnect :: "world \<Rightarrow> unit res \<times> world" where
  "disconnect w =
     (case sock w of
        None \<Rightarrow> (Returned (), w)
      | Some fd \<Rightarrow>
          (case sock_close fd w of
             (Raised e, w1) \<Rightarrow> (Returned (), w1\<lparr>sock := None, connected := False\<rparr>)
           | (Returned u, w1) \<Rightarrow> (Returned (), w1\<lparr>sock := None, connected := False\<rparr>)))"

section \<open>The accessors\<close>

definition get_wifi_status :: "world \<Rightarrow> json res \<times> world" where
  "get_wifi_status w = send_command CMD_WIFI_STATUS None w"

definition get_ble_status :: "world \<Rightarrow> json res \<times> world" where
  "get_ble_status w = send_command CMD_BLE_STATUS None w"

definition get_battery_status :: "world \<Rightarrow> json res \<times> world" where
  "get_battery_status w = send_command CMD_BAT_STATUS (Some [(''id'', JInt 0)]) w"

definition get_pv_status :: "world \<Rightarrow> json res \<times> world" where
  "get_pv_status w = send_command CMD_PV_STATUS (Some [(''id'', JInt 0)]) w"

definition get_es_status :: "world \<Rightarrow> json res \<times> world" where
  "get_es_status w = send_command CMD_ES_STATUS (Some [(''id'', JInt 0)]) w"

definition get_es_mode :: "world \<Rightarrow> json res \<times> world" where
  "get_es_mode w = send_command CMD_ES_GET_MODE (Some [(''id'', JInt 0)]) w"

section \<open>Setting the mode\<close>

text \<open>Lines 216 to 239 of \<^verbatim>\<open>set_es_mode\<close>: the dict \<^verbatim>\<open>mode_config\<close>. The chain of
  \<^verbatim>\<open>if\<close> and \<^verbatim>\<open>elif\<close> has no \<^verbatim>\<open>else\<close>.\<close>

definition mode_config :: "string \<Rightarrow> pydict option \<Rightarrow> pydict" where
  "mode_config mode config =
     (let config = (case config of None \<Rightarrow> [] | Some c \<Rightarrow> c) in
      [(''mode'', JStr mode)] @
      (if mode = ''Auto'' then
         [(''auto_cfg'', dict_get config ''auto_cfg'' (JObj [(''enable'', JInt 1)]))]
       else if mode = ''AI'' then
         [(''ai_cfg'', dict_get config ''ai_cfg'' (JObj [(''enable'', JInt 1)]))]
       else if mode = ''Manual'' then
         [(''manual_cfg'', dict_get config ''manual_cfg''
             (JObj [(''time_num'', JInt 1), (''start_time'', JStr ''08:30''),
                    (''end_time'', JStr ''20:30''), (''week_set'', JInt 127),
                    (''power'', JInt 100), (''enable'', JInt 1)]))]
       else if mode = ''Passive'' then
         [(''passive_cfg'', dict_get config ''passive_cfg''
             (JObj [(''power'', JInt 100), (''cd_time'', JInt 300)]))]
       else []))"

text \<open>Lines 241 to 244: the params of the request.\<close>

definition set_mode_params :: "string \<Rightarrow> pydict option \<Rightarrow> pydict" where
  "set_mode_params mode config =
     [(''id'', JInt 1), (''config'', JObj (mode_config mode config))]"

text \<open>Lines 246 to 252: \<^verbatim>\<open>result and result.get("set_result") is True\<close>. The method has
  no handler of its own.\<close>

definition set_es_mode :: "string \<Rightarrow> pydict option \<Rightarrow> world \<Rightarrow> bool res \<times> world" where
  "set_es_mode mode config w =
     (case send_command CMD_ES_SET_MODE (Some (set_mode_params mode config)) w of
        (Raised e, w1) \<Rightarrow> (Raised e, w1)
      | (Returned result, w1) \<Rightarrow>
          if truthy result then
            (case py_get result ''set_result'' of
               Raised e \<Rightarrow> (Raised e, w1)
             | Returned v \<Rightarrow>
                 if v = JBool True then (Returned True, w1) else (Returned False, w1))
          else (Returned False, w1))"

text \<open>
  \<^verbatim>\<open>MarstekESModeSelect.async_select_option\<close> of \<^verbatim>\<open>select.py\<close>, the caller of
  \<^verbatim>\<open>set_es_mode\<close>: it returns at once on an option outside \<^verbatim>\<open>ES_MODES\<close>. The refresh
  that it requests after a success belongs to the host's coordinator.
\<close>

definition async_select_option :: "string \<Rightarrow> world \<Rightarrow> unit res \<times> world" where
  "async_select_option option w =
     (if option \<notin> set ES_MODES then (Returned (), w)
      else (case set_es_mode option None w of
              (Raised e, w1) \<Rightarrow> (Raised e, w1)
            | (Returned result, w1) \<Rightarrow> (Returned (), w1)))"

section \<open>The snapshot\<close>

text \<open>\<^verbatim>\<open>get_all_data\<close> (lines 254 to 275): the three values of the dict display are
  evaluated from left to right.\<close>

definition get_all_data :: "world \<Rightarrow> json res \<times> world" where
  "get_all_data w =
     (case get_device_info w of
        (Raised e, w1) \<Rightarrow> (Raised e, w1)
      | (Returned device, w1) \<Rightarrow>
          (case get_battery_status w1 of
             (Raised e, w2) \<Rightarrow> (Raised e, w2)
           | (Returned battery, w2) \<Rightarrow>
               (case get_es_mode w2 of
                  (Raised e, w3) \<Rightarrow> (Raised e, w3)
                | (Returned es_mode, w3) \<Rightarrow>
                    (Returned (JObj [(''device'', device), (''battery'', battery),
                                     (''es_mode'', es_mode)]), w3))))"

section \<open>Auxiliary notions\<close>

text \<open>The state in which a call of \<^verbatim>\<open>_send_command\<close> reaches its try block: the state
  that the implicit \<^verbatim>\<open>connect\<close> leaves when the client held no socket.\<close>

definition entry_state :: "world \<Rightarrow> world" where
  "entry_state w = (if sock w = None then snd (connect w) else w)"

text \<open>What a call leaves alone: the fields of the client's socket and the sockets of the
  operating system.\<close>

definition keeps :: "world \<Rightarrow> world \<Rightarrow> bool" where
  "keeps w w' \<longleftrightarrow>
     sock w' = sock w \<and> connected w' = connected w \<and> created w' = created w \<and>
     os_open w' = os_open w \<and> host w' = host w \<and> port w' = port w \<and>
     local_port w' = local_port w"

text \<open>The number of space characters in the strings of a value: in its keys, its string
  values and the texts of its numbers.\<close>

fun spaces_in :: "json \<Rightarrow> nat" where
  "spaces_in (JStr s) = count_list s (CHR 0x20)"
| "spaces_in (JFloat r) = count_list r (CHR 0x20)"
| "spaces_in (JArr xs) = sum_list (map spaces_in xs)"
| "spaces_in (JObj kvs) =
     sum_list (map (\<lambda>kv. count_list (fst kv) (CHR 0x20) + spaces_in (snd kv)) kvs)"
| "spaces_in v = 0"

text \<open>The only socket that no \<^verbatim>\<open>close\<close> was called on is the one that the client
  holds.\<close>

definition one_socket :: "world \<Rightarrow> bool" where
  "one_socket w \<longleftrightarrow> os_open w = (case sock w of None \<Rightarrow> [] | Some fd \<Rightarrow> [fd])"

text \<open>Sequences of calls of \<^verbatim>\<open>connect\<close> and \<^verbatim>\<open>disconnect\<close>, and the sequences in which
  \<^verbatim>\<open>connect\<close> is only called on a client that holds no socket.\<close>

datatype call = Connect | Disconnect

fun run :: "call list \<Rightarrow> world \<Rightarrow> world" where
  "run [] w = w"
| "run (Connect # cs) w = run cs (snd (connect w))"
| "run (Disconnect # cs) w = run cs (snd (disconnect w))"

fun connects_unheld :: "call list \<Rightarrow> world \<Rightarrow> bool" where
  "connects_unheld [] w = True"
| "connects_unheld (Connect # cs) w = (sock w = None \<and> connects_unheld cs (snd (connect w)))"
| "connects_unheld (Disconnect # cs) w = connects_unheld cs (snd (disconnect w))"

section \<open>What the calls leave alone\<close>

lemma keeps_refl: "keeps w w"
  by (simp add: keeps_def)

lemma keeps_trans: "keeps a b \<Longrightarrow> keeps b c \<Longrightarrow> keeps a c"
  by (simp add: keeps_def)

lemma getsockname_keeps: "keeps w (snd (sock_getsockname w))"
  by (cases "next_fault (getsockname_faults w)")
     (auto simp: sock_getsockname_def keeps_def split: option.splits)

lemma getsockname_scripts:
  "recv_script (snd (sock_getsockname w)) = recv_script w"
  "sendto_faults (snd (sock_getsockname w)) = sendto_faults w"
  "sent (snd (sock_getsockname w)) = sent w"
  by (cases "next_fault (getsockname_faults w)";
      auto simp: sock_getsockname_def split: option.splits)+

lemma sendto_keeps: "keeps w (snd (sock_sendto m w))"
  by (cases "next_fault (sendto_faults w)")
     (auto simp: sock_sendto_def keeps_def split: option.splits)

lemma sendto_scripts: "recv_script (snd (sock_sendto m w)) = recv_script w"
  by (cases "next_fault (sendto_faults w)")
     (auto simp: sock_sendto_def split: option.splits)

lemma recvfrom_keeps: "keeps w (snd (sock_recvfrom w))"
  by (auto simp: sock_recvfrom_def keeps_def split: option.splits list.splits recv.splits)

lemma receive_response_keeps: "keeps w (snd (receive_response w))"
  using recvfrom_keeps [of w]
  by (auto simp: receive_response_def split: prod.splits res.splits)

lemma send_try_keeps: "keeps w (snd (send_try c p w))"
proof -
  let ?w1 = "snd (sock_getsockname w)"
  let ?w2 = "snd (sock_sendto (build_message c p) ?w1)"
  have k1: "keeps w ?w1" by (rule getsockname_keeps)
  have k2: "keeps w ?w2" using k1 sendto_keeps keeps_trans by blast
  have k3: "keeps w (snd (receive_response ?w2))"
    using k2 receive_response_keeps keeps_trans by blast
  show ?thesis
    using k1 k2 k3
    by (auto simp: send_try_def Let_def split: prod.splits res.splits)
qed

lemma send_try_returns: "\<exists>v. fst (send_try c p w) = Returned v"
  by (auto simp: send_try_def Let_def split: prod.splits res.splits)

section \<open>The try block\<close>

lemma send_try_reply:
  assumes "sock w = Some fd"
    and "fst (next_fault (getsockname_faults w)) = None"
    and "fst (next_fault (sendto_faults w)) = None"
    and "recv_script w = Datagram (Parses v) # r"
  shows "fst (send_try c p w) =
           Returned (case dispatch v of Returned x \<Rightarrow> x | Raised e \<Rightarrow> JNull)"
proof -
  obtain g where g: "next_fault (getsockname_faults w) = (None, g)"
    using assms(2) by (cases "next_fault (getsockname_faults w)") simp
  obtain t where t: "next_fault (sendto_faults w) = (None, t)"
    using assms(3) by (cases "next_fault (sendto_faults w)") simp
  show ?thesis
    using assms(1,4) g t
    by (cases "dispatch v")
       (simp_all add: send_try_def Let_def sock_getsockname_def sock_sendto_def
          receive_response_def sock_recvfrom_def)
qed

lemma receive_response_fault:
  assumes "recv_script w = [] \<or> (\<exists>e r. recv_script w = RecvRaises e # r)
           \<or> (\<exists>e r. recv_script w = Datagram (LoadsRaises e) # r)"
  shows "\<nexists>x. fst (receive_response w) = Returned x \<and> x \<noteq> JNull"
  using assms
  by (auto simp: receive_response_def sock_recvfrom_def split: option.splits if_splits)

lemma send_try_cases:
  "fst (send_try c p w) = Returned JNull \<or>
   fst (send_try c p w) =
     fst (receive_response (snd (sock_sendto (build_message c p) (snd (sock_getsockname w)))))"
  by (auto simp: send_try_def Let_def split: prod.splits res.splits)

lemma send_try_recv_fault:
  assumes "recv_script w = [] \<or> (\<exists>e r. recv_script w = RecvRaises e # r)
           \<or> (\<exists>e r. recv_script w = Datagram (LoadsRaises e) # r)"
  shows "fst (send_try c p w) = Returned JNull"
proof -
  let ?w2 = "snd (sock_sendto (build_message c p) (snd (sock_getsockname w)))"
  have "recv_script ?w2 = recv_script w"
    by (simp add: sendto_scripts getsockname_scripts)
  with assms have "\<nexists>x. fst (receive_response ?w2) = Returned x \<and> x \<noteq> JNull"
    using receive_response_fault [of ?w2] by simp
  moreover obtain v where "fst (send_try c p w) = Returned v"
    using send_try_returns by blast
  ultimately show ?thesis
    using send_try_cases [of c p w] by auto
qed

lemma send_try_getsockname_fault:
  assumes "sock w = Some fd" and "fst (next_fault (getsockname_faults w)) = Some e"
  shows "fst (send_try c p w) = Returned JNull"
proof -
  obtain g where "next_fault (getsockname_faults w) = (Some e, g)"
    using assms(2) by (cases "next_fault (getsockname_faults w)") simp
  then show ?thesis
    using assms(1) by (simp add: send_try_def Let_def sock_getsockname_def)
qed

lemma send_try_sendto_fault:
  assumes "fst (next_fault (sendto_faults w)) = Some e"
  shows "fst (send_try c p w) = Returned JNull"
proof -
  let ?w1 = "snd (sock_getsockname w)"
  have "sendto_faults ?w1 = sendto_faults w"
    by (simp add: getsockname_scripts)
  then obtain t where t: "next_fault (sendto_faults ?w1) = (Some e, t)"
    using assms by (cases "next_fault (sendto_faults ?w1)") simp
  have "\<exists>e'. fst (sock_sendto (build_message c p) ?w1) = Raised e'"
    using t by (simp add: sock_sendto_def split: option.splits)
  then show ?thesis
    by (auto simp: send_try_def Let_def split: prod.splits res.splits)
qed

lemma send_try_no_socket: "sock w = None \<Longrightarrow> fst (send_try c p w) = Returned JNull"
  by (simp add: send_try_def Let_def sock_getsockname_def sock_sendto_def)

section \<open>Connecting and sending\<close>

lemma send_command_held: "sock w \<noteq> None \<Longrightarrow> send_command c p w = send_try c p w"
  by (cases "sock w") (simp_all add: send_command.simps)

lemma get_device_info_held:
  "sock w \<noteq> None \<Longrightarrow> get_device_info w = send_try CMD_GET_DEVICE None w"
  by (simp add: get_device_info.simps send_command_held)

lemma sock_bind_keeps: "keeps w (snd (sock_bind p w))"
  by (cases "next_fault (bind_faults w)")
     (auto simp: sock_bind_def keeps_def split: option.splits)

lemma connect_returns: "\<exists>b. fst (connect w) = Returned b"
  by (subst connect.simps) (auto split: prod.splits res.splits)

lemma connect_no_socket:
  assumes "fst (next_fault (socket_faults w)) = Some e"
  shows "fst (connect w) = Returned False" and "keeps w (snd (connect w))"
proof -
  obtain r where "next_fault (socket_faults w) = (Some e, r)"
    using assms by (cases "next_fault (socket_faults w)") simp
  then have s: "socket_socket w = (Raised e, w\<lparr>socket_faults := r\<rparr>)"
    by (simp add: socket_socket_def)
  show "fst (connect w) = Returned False"
    by (subst connect.simps) (simp add: s)
  show "keeps w (snd (connect w))"
    by (subst connect.simps) (simp add: s keeps_def)
qed

lemma connect_new_socket:
  assumes "fst (next_fault (socket_faults w)) = None"
  shows "sock (snd (connect w)) = Some (created w)"
    and "os_open (snd (connect w)) = os_open w @ [created w]"
    and "created (snd (connect w)) = Suc (created w)"
proof -
  obtain r where "next_fault (socket_faults w) = (None, r)"
    using assms by (cases "next_fault (socket_faults w)") simp
  then have s: "socket_socket w =
      (Returned (created w),
       w\<lparr>socket_faults := r, created := Suc (created w),
         os_open := os_open w @ [created w]\<rparr>)"
    by (simp add: socket_socket_def)
  define w1 where "w1 = w\<lparr>socket_faults := r, created := Suc (created w),
         os_open := os_open w @ [created w], sock := Some (created w)\<rparr>"
  define b where "b = (case sock_bind (local_port w) w1 of
                         (Raised e, w2) \<Rightarrow>
                           if is_OSError e then sock_bind 0 w2 else (Raised e, w2)
                       | (Returned u, w2) \<Rightarrow> (Returned u, w2))"
  have kb: "keeps w1 (snd b)"
    using sock_bind_keeps [of w1 "local_port w"]
      sock_bind_keeps [of "snd (sock_bind (local_port w) w1)" 0]
    by (auto simp: b_def keeps_def split: prod.splits res.splits)
  let ?w3 = "(snd b)\<lparr>connected := True\<rparr>"
  have s3: "sock ?w3 = Some (created w)"
    using kb by (simp add: keeps_def w1_def)
  then have g: "get_device_info ?w3 = send_try CMD_GET_DEVICE None ?w3"
    by (simp add: get_device_info_held)
  have kt: "keeps ?w3 (snd (send_try CMD_GET_DEVICE None ?w3))"
    by (rule send_try_keeps)
  have c: "snd (connect w) =
        (case fst b of Raised e \<Rightarrow> snd b
         | Returned u \<Rightarrow> snd (send_try CMD_GET_DEVICE None ?w3))"
    apply (subst connect.simps)
    apply (simp add: s)
    apply (fold w1_def)
    apply (fold b_def)
    apply (insert g)
    apply (cases b)
    apply (auto split: res.splits prod.splits)
    done
  have all: "sock (snd (connect w)) = Some (created w) \<and>
        os_open (snd (connect w)) = os_open w @ [created w] \<and>
        created (snd (connect w)) = Suc (created w)"
    using kb kt by (auto simp: c keeps_def w1_def split: res.splits)
  show "sock (snd (connect w)) = Some (created w)" using all by simp
  show "os_open (snd (connect w)) = os_open w @ [created w]" using all by simp
  show "created (snd (connect w)) = Suc (created w)" using all by simp
qed

lemma connect_true_sock:
  assumes "fst (connect w) = Returned True"
  shows "sock (snd (connect w)) = Some (created w)"
proof (cases "fst (next_fault (socket_faults w))")
  case None
  then show ?thesis by (rule connect_new_socket)
next
  case (Some e)
  then have "fst (connect w) = Returned False" by (rule connect_no_socket)
  with assms show ?thesis by simp
qed

lemma send_command_fst:
  "fst (send_command c p w) =
     (if sock w = None \<and> fst (connect w) = Returned False then Returned JNull
      else fst (send_try c p (entry_state w)))"
proof (cases "sock w")
  case None
  obtain b where b: "fst (connect w) = Returned b"
    using connect_returns by blast
  show ?thesis
    using None b
    by (subst send_command.simps) (auto simp: entry_state_def split: prod.splits)
next
  case (Some fd)
  then show ?thesis
    by (simp add: send_command_held entry_state_def)
qed

lemma entry_state_sock:
  assumes "sock w = None \<longrightarrow> fst (connect w) = Returned True"
  shows "\<exists>fd. sock (entry_state w) = Some fd"
  using assms connect_true_sock [of w]
  by (cases "sock w") (auto simp: entry_state_def)

lemma send_command_returns: "\<exists>v. fst (send_command c p w) = Returned v"
  using send_try_returns [of c p "entry_state w"]
  by (auto simp: send_command_fst)

lemma send_command_reply:
  assumes "sock w = None \<longrightarrow> fst (connect w) = Returned True"
    and "fst (next_fault (getsockname_faults (entry_state w))) = None"
    and "fst (next_fault (sendto_faults (entry_state w))) = None"
    and "recv_script (entry_state w) = Datagram (Parses v) # r"
  shows "fst (send_command c p w) =
           Returned (case dispatch v of Returned x \<Rightarrow> x | Raised e \<Rightarrow> JNull)"
proof -
  obtain fd where "sock (entry_state w) = Some fd"
    using entry_state_sock [OF assms(1)] by blast
  then have "fst (send_try c p (entry_state w)) =
           Returned (case dispatch v of Returned x \<Rightarrow> x | Raised e \<Rightarrow> JNull)"
    using assms(2,3,4) by (rule send_try_reply)
  moreover have "\<not> (sock w = None \<and> fst (connect w) = Returned False)"
    using assms(1) by auto
  ultimately show ?thesis
    by (simp only: send_command_fst if_False)
qed

section \<open>The claims on the request and response cycle\<close>

text \<open>
  C1. A call of \<^verbatim>\<open>_send_command\<close> that reaches its try block (the client holds a socket,
  or the implicit connect succeeded), sends its datagram and receives a reply that parses
  as the JSON object \<open>kvs\<close>: when \<open>kvs\<close> has a key \<^verbatim>\<open>result\<close> whose value is an object, the
  call returns that object; when it has a key \<^verbatim>\<open>error\<close> and no key \<^verbatim>\<open>result\<close>, the call
  returns \<^verbatim>\<open>None\<close>; when it has neither key, the call returns \<open>kvs\<close> itself.
\<close>

theorem send_command_dispatch:
  assumes "sock w = None \<longrightarrow> fst (connect w) = Returned True"
    and "fst (next_fault (getsockname_faults (entry_state w))) = None"
    and "fst (next_fault (sendto_faults (entry_state w))) = None"
    and "recv_script (entry_state w) = Datagram (Parses (JObj kvs)) # r"
  shows "(\<forall>ks. map_of kvs ''result'' = Some (JObj ks) \<longrightarrow>
            fst (send_command command params w) = Returned (JObj ks)) \<and>
         (map_of kvs ''result'' = None \<and> map_of kvs ''error'' \<noteq> None \<longrightarrow>
            fst (send_command command params w) = Returned JNull) \<and>
         (map_of kvs ''result'' = None \<and> map_of kvs ''error'' = None \<longrightarrow>
            fst (send_command command params w) = Returned (JObj kvs))"
  using send_command_reply [OF assms, of command params]
  by auto

theorem send_command_dispatch_witness:
  "fst (send_command ''ES.GetMode'' (Some [(''id'', JInt 0)])
         ((new_api ''192.168.1.50'' 30000 30000)
            \<lparr>recv_script :=
               [Datagram (Parses (JObj [(''id'', JInt 1),
                                        (''result'', JObj [(''device'', JStr ''VenusE'')])])),
                Datagram (Parses (JObj [(''id'', JInt 1),
                                        (''result'', JObj [(''mode'', JStr ''Auto'')])]))]\<rparr>))
     = Returned (JObj [(''mode'', JStr ''Auto'')]) \<and>
   fst (send_command ''ES.GetMode'' (Some [(''id'', JInt 0)])
         ((new_api ''192.168.1.50'' 30000 30000)
            \<lparr>sock := Some 0,
              recv_script :=
               [Datagram (Parses (JObj [(''id'', JInt 1),
                                        (''error'', JObj [(''code'', JInt (-32601))])]))]\<rparr>))
     = Returned JNull \<and>
   fst (send_command ''ES.GetMode'' (Some [(''id'', JInt 0)])
         ((new_api ''192.168.1.50'' 30000 30000)
            \<lparr>sock := Some 0,
              recv_script := [Datagram (Parses (JObj [(''status'', JStr ''busy'')]))]\<rparr>))
     = Returned (JObj [(''status'', JStr ''busy'')])"
proof -
  let ?k1 = "[(''id'', JInt 1), (''result'', JObj [(''mode'', JStr ''Auto'')])]"
  let ?w1 = "(new_api ''192.168.1.50'' 30000 30000)
            \<lparr>recv_script :=
               [Datagram (Parses (JObj [(''id'', JInt 1),
                                        (''result'', JObj [(''device'', JStr ''VenusE'')])])),
                Datagram (Parses (JObj ?k1))]\<rparr>"
  let ?k2 = "[(''id'', JInt 1), (''error'', JObj [(''code'', JInt (-32601))])]"
  let ?w2 = "(new_api ''192.168.1.50'' 30000 30000)
            \<lparr>sock := Some 0, recv_script := [Datagram (Parses (JObj ?k2))]\<rparr>"
  let ?k3 = "[(''status'', JStr ''busy'')]"
  let ?w3 = "(new_api ''192.168.1.50'' 30000 30000)
            \<lparr>sock := Some 0, recv_script := [Datagram (Parses (JObj ?k3))]\<rparr>"
  have a1: "sock ?w1 = None \<longrightarrow> fst (connect ?w1) = Returned True" by code_simp
  have b1: "fst (next_fault (getsockname_faults (entry_state ?w1))) = None" by code_simp
  have c1: "fst (next_fault (sendto_faults (entry_state ?w1))) = None" by code_simp
  have d1: "recv_script (entry_state ?w1) = Datagram (Parses (JObj ?k1)) # []" by code_simp
  have a2: "sock ?w2 = None \<longrightarrow> fst (connect ?w2) = Returned True" by code_simp
  have b2: "fst (next_fault (getsockname_faults (entry_state ?w2))) = None" by code_simp
  have c2: "fst (next_fault (sendto_faults (entry_state ?w2))) = None" by code_simp
  have d2: "recv_script (entry_state ?w2) = Datagram (Parses (JObj ?k2)) # []" by code_simp
  have a3: "sock ?w3 = None \<longrightarrow> fst (connect ?w3) = Returned True" by code_simp
  have b3: "fst (next_fault (getsockname_faults (entry_state ?w3))) = None" by code_simp
  have c3: "fst (next_fault (sendto_faults (entry_state ?w3))) = None" by code_simp
  have d3: "recv_script (entry_state ?w3) = Datagram (Parses (JObj ?k3)) # []" by code_simp
  show ?thesis
    using send_command_dispatch [OF a1 b1 c1 d1, of "''ES.GetMode''" "Some [(''id'', JInt 0)]"]
      send_command_dispatch [OF a2 b2 c2 d2, of "''ES.GetMode''" "Some [(''id'', JInt 0)]"]
      send_command_dispatch [OF a3 b3 c3 d3, of "''ES.GetMode''" "Some [(''id'', JInt 0)]"]
    by simp
qed

text \<open>
  C2. \<^verbatim>\<open>_send_command\<close> returns on every input and in every environment: it never raises.
  It returns \<^verbatim>\<open>None\<close> when the device is silent until the timeout, when \<^verbatim>\<open>recvfrom\<close>
  raises (the timeout, the \<^verbatim>\<open>ConnectionResetError\<close> of a closed port, or any other
  exception), when the payload does not parse (\<^verbatim>\<open>json.loads\<close> raises), when the implicit
  connect fails, and when sending the datagram or reading the socket name raises.
\<close>

theorem send_command_never_raises:
  "(\<exists>v. fst (send_command command params w) = Returned v) \<and>
   (recv_script (entry_state w) = [] \<longrightarrow>
      fst (send_command command params w) = Returned JNull) \<and>
   (\<forall>e r. recv_script (entry_state w) = RecvRaises e # r \<longrightarrow>
      fst (send_command command params w) = Returned JNull) \<and>
   (\<forall>e r. recv_script (entry_state w) = Datagram (LoadsRaises e) # r \<longrightarrow>
      fst (send_command command params w) = Returned JNull) \<and>
   (sock w = None \<and> fst (connect w) = Returned False \<longrightarrow>
      fst (send_command command params w) = Returned JNull) \<and>
   (\<forall>e. fst (next_fault (sendto_faults (entry_state w))) = Some e \<longrightarrow>
      fst (send_command command params w) = Returned JNull) \<and>
   (\<forall>e. fst (next_fault (getsockname_faults (entry_state w))) = Some e \<longrightarrow>
      fst (send_command command params w) = Returned JNull)"
proof (intro conjI allI impI)
  show "\<exists>v. fst (send_command command params w) = Returned v"
    by (rule send_command_returns)
next
  assume "recv_script (entry_state w) = []"
  then have "fst (send_try command params (entry_state w)) = Returned JNull"
    by (intro send_try_recv_fault) simp
  then show "fst (send_command command params w) = Returned JNull"
    by (simp add: send_command_fst)
next
  fix e r
  assume "recv_script (entry_state w) = RecvRaises e # r"
  then have "fst (send_try command params (entry_state w)) = Returned JNull"
    by (intro send_try_recv_fault) simp
  then show "fst (send_command command params w) = Returned JNull"
    by (simp add: send_command_fst)
next
  fix e r
  assume "recv_script (entry_state w) = Datagram (LoadsRaises e) # r"
  then have "fst (send_try command params (entry_state w)) = Returned JNull"
    by (intro send_try_recv_fault) simp
  then show "fst (send_command command params w) = Returned JNull"
    by (simp add: send_command_fst)
next
  assume "sock w = None \<and> fst (connect w) = Returned False"
  then show "fst (send_command command params w) = Returned JNull"
    by (simp add: send_command_fst)
next
  fix e
  assume "fst (next_fault (sendto_faults (entry_state w))) = Some e"
  then have "fst (send_try command params (entry_state w)) = Returned JNull"
    by (rule send_try_sendto_fault)
  then show "fst (send_command command params w) = Returned JNull"
    by (simp add: send_command_fst)
next
  fix e
  assume g: "fst (next_fault (getsockname_faults (entry_state w))) = Some e"
  show "fst (send_command command params w) = Returned JNull"
  proof (cases "sock w = None \<and> fst (connect w) = Returned False")
    case True
    then show ?thesis by (simp add: send_command_fst)
  next
    case False
    obtain b where b: "fst (connect w) = Returned b"
      using connect_returns by blast
    with False have "sock w = None \<longrightarrow> fst (connect w) = Returned True"
      by auto
    then have "\<exists>fd. sock (entry_state w) = Some fd"
      by (rule entry_state_sock)
    then obtain fd where "sock (entry_state w) = Some fd" ..
    then have "fst (send_try command params (entry_state w)) = Returned JNull"
      using g by (rule send_try_getsockname_fault)
    with False show ?thesis
      by (simp only: send_command_fst if_False)
  qed
qed

theorem send_command_never_raises_witness:
  "fst (send_command ''Bat.GetStatus'' (Some [(''id'', JInt 0)])
         ((new_api ''192.168.1.50'' 30000 30000)\<lparr>sock := Some 0\<rparr>)) = Returned JNull \<and>
   fst (send_command ''Bat.GetStatus'' (Some [(''id'', JInt 0)])
         ((new_api ''192.168.1.50'' 30000 30000)
            \<lparr>sock := Some 0, recv_script := [RecvRaises ConnectionResetError]\<rparr>))
     = Returned JNull \<and>
   fst (send_command ''Bat.GetStatus'' (Some [(''id'', JInt 0)])
         ((new_api ''192.168.1.50'' 30000 30000)
            \<lparr>sock := Some 0, recv_script := [Datagram (LoadsRaises JSONDecodeError)]\<rparr>))
     = Returned JNull \<and>
   fst (send_command ''Bat.GetStatus'' (Some [(''id'', JInt 0)])
         ((new_api ''192.168.1.50'' 30000 30000)\<lparr>socket_faults := [Some OSError]\<rparr>))
     = Returned JNull \<and>
   fst (send_command ''Bat.GetStatus'' (Some [(''id'', JInt 0)])
         ((new_api ''192.168.1.50'' 30000 30000)
            \<lparr>sock := Some 0, sendto_faults := [Some OSError]\<rparr>))
     = Returned JNull \<and>
   fst (send_command ''Bat.GetStatus'' (Some [(''id'', JInt 0)])
         ((new_api ''192.168.1.50'' 30000 30000)
            \<lparr>sock := Some 0, getsockname_faults := [Some OSError]\<rparr>))
     = Returned JNull"
proof -
  let ?c = "''Bat.GetStatus''"
  let ?p = "Some [(''id'', JInt 0)]"
  let ?w1 = "(new_api ''192.168.1.50'' 30000 30000)\<lparr>sock := Some 0\<rparr>"
  let ?w2 = "(new_api ''192.168.1.50'' 30000 30000)
            \<lparr>sock := Some 0, recv_script := [RecvRaises ConnectionResetError]\<rparr>"
  let ?w3 = "(new_api ''192.168.1.50'' 30000 30000)
            \<lparr>sock := Some 0, recv_script := [Datagram (LoadsRaises JSONDecodeError)]\<rparr>"
  let ?w4 = "(new_api ''192.168.1.50'' 30000 30000)\<lparr>socket_faults := [Some OSError]\<rparr>"
  let ?w5 = "(new_api ''192.168.1.50'' 30000 30000)
            \<lparr>sock := Some 0, sendto_faults := [Some OSError]\<rparr>"
  let ?w6 = "(new_api ''192.168.1.50'' 30000 30000)
            \<lparr>sock := Some 0, getsockname_faults := [Some OSError]\<rparr>"
  have h1: "recv_script (entry_state ?w1) = []" by code_simp
  have h2: "recv_script (entry_state ?w2) = RecvRaises ConnectionResetError # []" by code_simp
  have h3: "recv_script (entry_state ?w3) = Datagram (LoadsRaises JSONDecodeError) # []"
    by code_simp
  have h4: "sock ?w4 = None \<and> fst (connect ?w4) = Returned False" by code_simp
  have h5: "fst (next_fault (sendto_faults (entry_state ?w5))) = Some OSError" by code_simp
  have h6: "fst (next_fault (getsockname_faults (entry_state ?w6))) = Some OSError"
    by code_simp
  have r1: "fst (send_command ?c ?p ?w1) = Returned JNull"
    using send_command_never_raises [of ?c ?p ?w1] h1 by blast
  have r2: "fst (send_command ?c ?p ?w2) = Returned JNull"
    using send_command_never_raises [of ?c ?p ?w2] h2 by blast
  have r3: "fst (send_command ?c ?p ?w3) = Returned JNull"
    using send_command_never_raises [of ?c ?p ?w3] h3 by blast
  have r4: "fst (send_command ?c ?p ?w4) = Returned JNull"
    using send_command_never_raises [of ?c ?p ?w4] h4 by blast
  have r5: "fst (send_command ?c ?p ?w5) = Returned JNull"
    using send_command_never_raises [of ?c ?p ?w5] h5 by blast
  have r6: "fst (send_command ?c ?p ?w6) = Returned JNull"
    using send_command_never_raises [of ?c ?p ?w6] h6 by blast
  from r1 r2 r3 r4 r5 r6 show ?thesis by blast
qed

text \<open>
  C10. In a call of \<^verbatim>\<open>_send_command\<close> that reaches its try block, sends and receives a
  reply parsing as a JSON object, a value under the key \<^verbatim>\<open>result\<close> that is not itself an
  object (a number, a string, an array, a boolean, \<^verbatim>\<open>null\<close>) makes the call return \<^verbatim>\<open>None\<close>:
  \<^verbatim>\<open>response["result"].keys()\<close> raises and \<^verbatim>\<open>except Exception\<close> takes it.
\<close>

theorem send_command_result_not_object:
  assumes "sock w = None \<longrightarrow> fst (connect w) = Returned True"
    and "fst (next_fault (getsockname_faults (entry_state w))) = None"
    and "fst (next_fault (sendto_faults (entry_state w))) = None"
    and "recv_script (entry_state w) = Datagram (Parses (JObj kvs)) # r"
    and "map_of kvs ''result'' = Some v"
    and "\<forall>ks. v \<noteq> JObj ks"
  shows "fst (send_command command params w) = Returned JNull"
  using send_command_reply [OF assms(1,2,3,4), of command params] assms(5,6)
  by (cases v) auto

theorem send_command_result_not_object_witness:
  "fst (send_command ''ES.GetStatus'' (Some [(''id'', JInt 0)])
         ((new_api ''192.168.1.50'' 30000 30000)
            \<lparr>sock := Some 0,
              recv_script := [Datagram (Parses (JObj [(''id'', JInt 1),
                                                      (''result'', JInt 5)]))]\<rparr>))
     = Returned JNull \<and>
   fst (send_command ''ES.GetStatus'' (Some [(''id'', JInt 0)])
         ((new_api ''192.168.1.50'' 30000 30000)
            \<lparr>sock := Some 0,
              recv_script := [Datagram (Parses (JObj [(''result'', JArr [JStr ''ok''])]))]\<rparr>))
     = Returned JNull"
proof -
  let ?c = "''ES.GetStatus''"
  let ?p = "Some [(''id'', JInt 0)]"
  let ?k1 = "[(''id'', JInt 1), (''result'', JInt 5)]"
  let ?w1 = "(new_api ''192.168.1.50'' 30000 30000)
            \<lparr>sock := Some 0, recv_script := [Datagram (Parses (JObj ?k1))]\<rparr>"
  let ?k2 = "[(''result'', JArr [JStr ''ok''])]"
  let ?w2 = "(new_api ''192.168.1.50'' 30000 30000)
            \<lparr>sock := Some 0, recv_script := [Datagram (Parses (JObj ?k2))]\<rparr>"
  have a1: "sock ?w1 = None \<longrightarrow> fst (connect ?w1) = Returned True" by code_simp
  have b1: "fst (next_fault (getsockname_faults (entry_state ?w1))) = None" by code_simp
  have c1: "fst (next_fault (sendto_faults (entry_state ?w1))) = None" by code_simp
  have d1: "recv_script (entry_state ?w1) = Datagram (Parses (JObj ?k1)) # []" by code_simp
  have e1: "map_of ?k1 ''result'' = Some (JInt 5)" by simp
  have f1: "\<forall>ks. JInt 5 \<noteq> JObj ks" by simp
  have a2: "sock ?w2 = None \<longrightarrow> fst (connect ?w2) = Returned True" by code_simp
  have b2: "fst (next_fault (getsockname_faults (entry_state ?w2))) = None" by code_simp
  have c2: "fst (next_fault (sendto_faults (entry_state ?w2))) = None" by code_simp
  have d2: "recv_script (entry_state ?w2) = Datagram (Parses (JObj ?k2)) # []" by code_simp
  have e2: "map_of ?k2 ''result'' = Some (JArr [JStr ''ok''])" by simp
  have f2: "\<forall>ks. JArr [JStr ''ok''] \<noteq> JObj ks" by simp
  show ?thesis
    using send_command_result_not_object [OF a1 b1 c1 d1 e1 f1, of ?c ?p]
      send_command_result_not_object [OF a2 b2 c2 d2 e2 f2, of ?c ?p]
    by simp
qed

section \<open>The claims on the socket and the snapshot\<close>

text \<open>
  C9. \<^verbatim>\<open>disconnect\<close> never raises and leaves the socket handle cleared, from every state
  (also one that never held a socket) and whatever \<^verbatim>\<open>close\<close> does; a second call
  returns as well and changes nothing, and so does every further one.
\<close>

theorem disconnect_clears:
  "fst (disconnect w) = Returned () \<and>
   sock (snd (disconnect w)) = None \<and>
   disconnect (snd (disconnect w)) = (Returned (), snd (disconnect w)) \<and>
   sock (((\<lambda>v. snd (disconnect v)) ^^ Suc n) w) = None"
proof -
  have one: "fst (disconnect v) = Returned () \<and> sock (snd (disconnect v)) = None" for v
    by (cases "sock v"; cases "next_fault (close_faults v)")
       (auto simp: disconnect_def sock_close_def split: option.splits)
  have again: "disconnect v = (Returned (), v)" if "sock v = None" for v
    using that by (simp add: disconnect_def)
  have "((\<lambda>v. snd (disconnect v)) ^^ Suc n) w =
          snd (disconnect (((\<lambda>v. snd (disconnect v)) ^^ n) w))"
    by simp
  then have "sock (((\<lambda>v. snd (disconnect v)) ^^ Suc n) w) = None"
    using one by simp
  with one [of w] again [of "snd (disconnect w)"] show ?thesis
    by simp
qed

lemma get_battery_status_returns: "\<exists>v. fst (get_battery_status w) = Returned v"
  by (simp add: get_battery_status_def send_command_returns)

lemma get_es_mode_returns: "\<exists>v. fst (get_es_mode w) = Returned v"
  by (simp add: get_es_mode_def send_command_returns)

lemma get_device_info_returns: "\<exists>v. fst (get_device_info w) = Returned v"
  by (simp add: get_device_info.simps send_command_returns)

text \<open>
  C7. \<^verbatim>\<open>get_all_data\<close> never raises. It returns the dict with the keys \<^verbatim>\<open>device\<close>,
  \<^verbatim>\<open>battery\<close> and \<^verbatim>\<open>es_mode\<close>, in this order and no other key, whose values are what
  \<^verbatim>\<open>get_device_info\<close>, \<^verbatim>\<open>get_battery_status\<close> and \<^verbatim>\<open>get_es_mode\<close> return when they are
  called one after the other, each in the state that the one before left. When all
  three return \<^verbatim>\<open>None\<close> the three values are \<^verbatim>\<open>None\<close>.
\<close>

theorem get_all_data_snapshot:
  "(\<exists>device battery es_mode.
      fst (get_device_info w) = Returned device \<and>
      fst (get_battery_status (snd (get_device_info w))) = Returned battery \<and>
      fst (get_es_mode (snd (get_battery_status (snd (get_device_info w)))))
        = Returned es_mode \<and>
      get_all_data w =
        (Returned (JObj [(''device'', device), (''battery'', battery),
                         (''es_mode'', es_mode)]),
         snd (get_es_mode (snd (get_battery_status (snd (get_device_info w))))))) \<and>
   (fst (get_device_info w) = Returned JNull \<and>
    fst (get_battery_status (snd (get_device_info w))) = Returned JNull \<and>
    fst (get_es_mode (snd (get_battery_status (snd (get_device_info w))))) = Returned JNull
    \<longrightarrow> fst (get_all_data w) =
          Returned (JObj [(''device'', JNull), (''battery'', JNull), (''es_mode'', JNull)]))"
proof -
  obtain r1 w1 where p1: "get_device_info w = (r1, w1)"
    by (cases "get_device_info w")
  obtain r2 w2 where p2: "get_battery_status w1 = (r2, w2)"
    by (cases "get_battery_status w1")
  obtain r3 w3 where p3: "get_es_mode w2 = (r3, w3)"
    by (cases "get_es_mode w2")
  obtain d where d: "r1 = Returned d"
    using get_device_info_returns [of w] p1 by auto
  obtain b where b: "r2 = Returned b"
    using get_battery_status_returns [of w1] p2 by auto
  obtain m where m: "r3 = Returned m"
    using get_es_mode_returns [of w2] p3 by auto
  have "get_all_data w =
        (Returned (JObj [(''device'', d), (''battery'', b), (''es_mode'', m)]), w3)"
    by (simp add: get_all_data_def p1 p2 p3 d b m)
  with p1 p2 p3 d b m show ?thesis by simp
qed

theorem get_all_data_snapshot_witness:
  "fst (get_all_data ((new_api ''192.168.1.50'' 30000 30000)
                        \<lparr>socket_faults := [Some OSError, Some OSError, Some OSError]\<rparr>))
     = Returned (JObj [(''device'', JNull), (''battery'', JNull), (''es_mode'', JNull)])"
proof -
  let ?w = "(new_api ''192.168.1.50'' 30000 30000)
              \<lparr>socket_faults := [Some OSError, Some OSError, Some OSError]\<rparr>"
  have "fst (get_device_info ?w) = Returned JNull \<and>
    fst (get_battery_status (snd (get_device_info ?w))) = Returned JNull \<and>
    fst (get_es_mode (snd (get_battery_status (snd (get_device_info ?w))))) = Returned JNull"
    by code_simp
  then show ?thesis
    using get_all_data_snapshot [of ?w] by blast
qed

section \<open>The datagrams\<close>

lemma recvfrom_sent: "sent (snd (sock_recvfrom w)) = sent w"
  by (auto simp: sock_recvfrom_def split: option.splits list.splits recv.splits)

lemma receive_response_sent: "sent (snd (receive_response w)) = sent w"
  using recvfrom_sent [of w]
  by (auto simp: receive_response_def split: prod.splits res.splits)

lemma sendto_sent:
  "sent (snd (sock_sendto m w)) = sent w \<or>
   sent (snd (sock_sendto m w)) = sent w @ [(m, host w, port w)]"
  by (cases "next_fault (sendto_faults w)")
     (auto simp: sock_sendto_def split: option.splits)

lemma send_try_sent:
  "sent (snd (send_try c p w)) = sent w \<or>
   sent (snd (send_try c p w)) = sent w @ [(build_message c p, host w, port w)]"
proof -
  let ?w1 = "snd (sock_getsockname w)"
  let ?w2 = "snd (sock_sendto (build_message c p) ?w1)"
  have k1: "keeps w ?w1" by (rule getsockname_keeps)
  have s1: "sent ?w1 = sent w" by (simp add: getsockname_scripts)
  have s2: "sent ?w2 = sent w \<or> sent ?w2 = sent w @ [(build_message c p, host w, port w)]"
    using sendto_sent [of "build_message c p" ?w1] k1 s1 by (simp add: keeps_def)
  have s3: "sent (snd (receive_response ?w2)) = sent ?w2"
    by (rule receive_response_sent)
  have "snd (send_try c p w) = ?w1 \<or> snd (send_try c p w) = ?w2 \<or>
        snd (send_try c p w) = snd (receive_response ?w2)"
    by (auto simp: send_try_def Let_def split: prod.splits res.splits)
  with s1 s2 s3 show ?thesis by auto
qed

lemma sock_bind_sent: "sent (snd (sock_bind p w)) = sent w"
  by (cases "next_fault (bind_faults w)")
     (auto simp: sock_bind_def split: option.splits)

lemma connect_sent:
  "sent (snd (connect w)) = sent w \<or>
   sent (snd (connect w)) = sent w @ [(build_message CMD_GET_DEVICE None, host w, port w)]"
proof (cases "fst (next_fault (socket_faults w))")
  case (Some e)
  then obtain r where "next_fault (socket_faults w) = (Some e, r)"
    by (cases "next_fault (socket_faults w)") simp
  then have s: "socket_socket w = (Raised e, w\<lparr>socket_faults := r\<rparr>)"
    by (simp add: socket_socket_def)
  have "sent (snd (connect w)) = sent w"
    by (subst connect.simps) (simp add: s)
  then show ?thesis ..
next
  case None
  then obtain r where "next_fault (socket_faults w) = (None, r)"
    by (cases "next_fault (socket_faults w)") simp
  then have s: "socket_socket w =
      (Returned (created w),
       w\<lparr>socket_faults := r, created := Suc (created w),
         os_open := os_open w @ [created w]\<rparr>)"
    by (simp add: socket_socket_def)
  define w1 where "w1 = w\<lparr>socket_faults := r, created := Suc (created w),
         os_open := os_open w @ [created w], sock := Some (created w)\<rparr>"
  define b where "b = (case sock_bind (local_port w) w1 of
                         (Raised e, w2) \<Rightarrow>
                           if is_OSError e then sock_bind 0 w2 else (Raised e, w2)
                       | (Returned u, w2) \<Rightarrow> (Returned u, w2))"
  have kb: "keeps w1 (snd b)"
    using sock_bind_keeps [of w1 "local_port w"]
      sock_bind_keeps [of "snd (sock_bind (local_port w) w1)" 0]
    by (auto simp: b_def keeps_def split: prod.splits res.splits)
  have sb: "sent (snd b) = sent w"
    using sock_bind_sent [of "local_port w" w1]
      sock_bind_sent [of 0 "snd (sock_bind (local_port w) w1)"]
    by (auto simp: b_def w1_def split: prod.splits res.splits)
  let ?w3 = "(snd b)\<lparr>connected := True\<rparr>"
  have s3: "sock ?w3 = Some (created w)"
    using kb by (simp add: keeps_def w1_def)
  then have g: "get_device_info ?w3 = send_try CMD_GET_DEVICE None ?w3"
    by (simp add: get_device_info_held)
  have hp: "host ?w3 = host w \<and> port ?w3 = port w \<and> sent ?w3 = sent w"
    using kb sb by (simp add: keeps_def w1_def)
  have c: "snd (connect w) =
        (case fst b of Raised e \<Rightarrow> snd b
         | Returned u \<Rightarrow> snd (send_try CMD_GET_DEVICE None ?w3))"
    apply (subst connect.simps)
    apply (simp add: s)
    apply (fold w1_def)
    apply (fold b_def)
    apply (insert g)
    apply (cases b)
    apply (auto split: res.splits prod.splits)
    done
  show ?thesis
    using send_try_sent [of CMD_GET_DEVICE None ?w3] hp sb
    by (auto simp: c split: res.splits)
qed

lemma connect_host_port: "host (snd (connect w)) = host w \<and> port (snd (connect w)) = port w"
proof (cases "fst (next_fault (socket_faults w))")
  case (Some e)
  then show ?thesis
    using connect_no_socket(2) [of w e] by (simp add: keeps_def)
next
  case None
  then obtain r where "next_fault (socket_faults w) = (None, r)"
    by (cases "next_fault (socket_faults w)") simp
  then have s: "socket_socket w =
      (Returned (created w),
       w\<lparr>socket_faults := r, created := Suc (created w),
         os_open := os_open w @ [created w]\<rparr>)"
    by (simp add: socket_socket_def)
  define w1 where "w1 = w\<lparr>socket_faults := r, created := Suc (created w),
         os_open := os_open w @ [created w], sock := Some (created w)\<rparr>"
  define b where "b = (case sock_bind (local_port w) w1 of
                         (Raised e, w2) \<Rightarrow>
                           if is_OSError e then sock_bind 0 w2 else (Raised e, w2)
                       | (Returned u, w2) \<Rightarrow> (Returned u, w2))"
  have kb: "keeps w1 (snd b)"
    using sock_bind_keeps [of w1 "local_port w"]
      sock_bind_keeps [of "snd (sock_bind (local_port w) w1)" 0]
    by (auto simp: b_def keeps_def split: prod.splits res.splits)
  let ?w3 = "(snd b)\<lparr>connected := True\<rparr>"
  have s3: "sock ?w3 = Some (created w)"
    using kb by (simp add: keeps_def w1_def)
  then have g: "get_device_info ?w3 = send_try CMD_GET_DEVICE None ?w3"
    by (simp add: get_device_info_held)
  have kt: "keeps ?w3 (snd (send_try CMD_GET_DEVICE None ?w3))"
    by (rule send_try_keeps)
  have c: "snd (connect w) =
        (case fst b of Raised e \<Rightarrow> snd b
         | Returned u \<Rightarrow> snd (send_try CMD_GET_DEVICE None ?w3))"
    apply (subst connect.simps)
    apply (simp add: s)
    apply (fold w1_def)
    apply (fold b_def)
    apply (insert g)
    apply (cases b)
    apply (auto split: res.splits prod.splits)
    done
  show ?thesis
    using kb kt by (auto simp: c keeps_def w1_def split: res.splits)
qed

lemma send_command_snd:
  "snd (send_command c p w) =
     (if sock w = None \<and> fst (connect w) = Returned False then snd (connect w)
      else snd (send_try c p (entry_state w)))"
proof (cases "sock w")
  case None
  obtain b where b: "fst (connect w) = Returned b"
    using connect_returns by blast
  show ?thesis
    using None b
    by (subst send_command.simps) (auto simp: entry_state_def split: prod.splits)
next
  case (Some fd)
  then show ?thesis
    by (simp add: send_command_held entry_state_def)
qed

lemma send_command_sent:
  "sent (snd (send_command c p w)) = sent w \<or>
   sent (snd (send_command c p w)) = sent w @ [(build_message c p, host w, port w)] \<or>
   sent (snd (send_command c p w)) =
     sent w @ [(build_message CMD_GET_DEVICE None, host w, port w)] \<or>
   sent (snd (send_command c p w)) =
     sent w @ [(build_message CMD_GET_DEVICE None, host w, port w),
               (build_message c p, host w, port w)]"
proof (cases "sock w")
  case (Some fd)
  then show ?thesis
    using send_try_sent [of c p w] by (auto simp: send_command_held)
next
  case None
  have e: "entry_state w = snd (connect w)"
    using None by (simp add: entry_state_def)
  show ?thesis
    using connect_sent [of w] connect_host_port [of w] send_try_sent [of c p "snd (connect w)"]
    by (auto simp: send_command_snd e)
qed

section \<open>The serialisation adds no space\<close>

lemma count_join_comma:
  "count_list (join_comma xs) (CHR 0x20) = sum_list (map (\<lambda>x. count_list x (CHR 0x20)) xs)"
  by (induction xs rule: join_comma.induct) simp_all

lemma hex_digit_no_space: "hex_digit n \<noteq> CHR 0x20"
proof -
  have "n mod 16 < length ''0123456789abcdef''" by simp
  then have "hex_digit n \<in> set ''0123456789abcdef''"
    unfolding hex_digit_def by (rule nth_mem)
  then show ?thesis by auto
qed

lemma count_escape_char:
  "count_list (escape_char c) (CHR 0x20) = (if c = CHR 0x20 then 1 else 0)"
  by (simp add: escape_char_def hex_digit_no_space)

lemma count_dumps_str: "count_list (dumps_str s) (CHR 0x20) = count_list s (CHR 0x20)"
proof -
  have "count_list (concat (map escape_char s)) (CHR 0x20) = count_list s (CHR 0x20)"
    by (induction s) (simp_all add: count_escape_char)
  then show ?thesis by (simp add: dumps_str_def)
qed

lemma decimal_digit_no_space: "n < 10 \<Longrightarrow> ''0123456789'' ! n \<noteq> CHR 0x20"
proof -
  assume "n < 10"
  then have "n < length ''0123456789''" by simp
  then have "''0123456789'' ! n \<in> set ''0123456789''" by (rule nth_mem)
  then show ?thesis by auto
qed

lemma count_digits: "count_list (digits n) (CHR 0x20) = 0"
proof (induction n rule: digits.induct)
  case (1 n)
  show ?case
  proof (cases "n < 10")
    case True
    then show ?thesis
      using decimal_digit_no_space [of n] by (subst digits.simps) simp
  next
    case False
    have "n mod 10 < 10" by simp
    then have "''0123456789'' ! (n mod 10) \<noteq> CHR 0x20"
      by (rule decimal_digit_no_space)
    with False 1 show ?thesis
      by (subst digits.simps) simp
  qed
qed

lemma count_dumps_int: "count_list (dumps_int i) (CHR 0x20) = 0"
  by (simp add: dumps_int_def count_digits)

lemma count_dumps: "count_list (dumps j) (CHR 0x20) = spaces_in j"
proof (induction j)
  case (JArr xs)
  have m: "map (\<lambda>x. count_list (dumps x) (CHR 0x20)) xs = map spaces_in xs"
    using JArr by (intro map_cong) auto
  have "count_list (dumps (JArr xs)) (CHR 0x20) =
          sum_list (map (\<lambda>x. count_list x (CHR 0x20)) (map dumps xs))"
    by (simp add: count_join_comma)
  also have "\<dots> = sum_list (map (\<lambda>x. count_list (dumps x) (CHR 0x20)) xs)"
    by (simp add: comp_def)
  also have "\<dots> = sum_list (map spaces_in xs)"
    by (simp only: m)
  finally show ?case by simp
next
  case (JObj kvs)
  have "count_list (dumps_str (fst kv) @ '':'' @ dumps (snd kv)) (CHR 0x20) =
          count_list (fst kv) (CHR 0x20) + spaces_in (snd kv)" if "kv \<in> set kvs" for kv
  proof -
    have "snd kv \<in> Basic_BNFs.snds kv"
      by (cases kv) simp
    with that JObj have "count_list (dumps (snd kv)) (CHR 0x20) = spaces_in (snd kv)"
      by blast
    then show ?thesis by (simp add: count_dumps_str)
  qed
  then have m: "map (\<lambda>kv. count_list (dumps_str (fst kv) @ '':'' @ dumps (snd kv)) (CHR 0x20)) kvs
           = map (\<lambda>kv. count_list (fst kv) (CHR 0x20) + spaces_in (snd kv)) kvs"
    by (intro map_cong) auto
  have "count_list (dumps (JObj kvs)) (CHR 0x20) =
          sum_list (map (\<lambda>x. count_list x (CHR 0x20))
            (map (\<lambda>kv. dumps_str (fst kv) @ '':'' @ dumps (snd kv)) kvs))"
    by (simp add: count_join_comma)
  also have "\<dots> = sum_list (map (\<lambda>kv. count_list (dumps_str (fst kv) @ '':'' @ dumps (snd kv))
                                  (CHR 0x20)) kvs)"
    by (simp only: map_map comp_def)
  also have "\<dots> = sum_list (map (\<lambda>kv. count_list (fst kv) (CHR 0x20) + spaces_in (snd kv)) kvs)"
    by (simp only: m)
  finally show ?case by simp
qed (simp_all add: count_dumps_str count_dumps_int)

lemma send_try_sent_ok:
  assumes "sock w = Some fd"
    and "fst (next_fault (getsockname_faults w)) = None"
    and "fst (next_fault (sendto_faults w)) = None"
  shows "sent (snd (send_try c p w)) = sent w @ [(build_message c p, host w, port w)]"
proof -
  obtain g where g: "next_fault (getsockname_faults w) = (None, g)"
    using assms(2) by (cases "next_fault (getsockname_faults w)") simp
  obtain t where t: "next_fault (sendto_faults w) = (None, t)"
    using assms(3) by (cases "next_fault (sendto_faults w)") simp
  let ?w2 = "w\<lparr>getsockname_faults := g, sendto_faults := t,
                sent := sent w @ [(build_message c p, host w, port w)]\<rparr>"
  have "snd (send_try c p w) = snd (receive_response ?w2)"
    using assms(1) g t
    by (simp add: send_try_def Let_def sock_getsockname_def sock_sendto_def
          split: prod.splits res.splits)
  then show ?thesis
    by (simp add: receive_response_sent)
qed

lemma send_command_sent_ok:
  assumes "sock w = None \<longrightarrow> fst (connect w) = Returned True"
    and "fst (next_fault (getsockname_faults (entry_state w))) = None"
    and "fst (next_fault (sendto_faults (entry_state w))) = None"
  shows "sent (snd (send_command c p w)) =
           sent (entry_state w) @ [(build_message c p, host w, port w)]"
proof -
  have "\<exists>fd. sock (entry_state w) = Some fd"
    using assms(1) by (rule entry_state_sock)
  then obtain fd where fd: "sock (entry_state w) = Some fd" ..
  have hp: "host (entry_state w) = host w \<and> port (entry_state w) = port w"
    using connect_host_port [of w] by (simp add: entry_state_def)
  have "\<not> (sock w = None \<and> fst (connect w) = Returned False)"
    using assms(1) by auto
  then have "snd (send_command c p w) = snd (send_try c p (entry_state w))"
    by (simp only: send_command_snd if_False)
  then show ?thesis
    using send_try_sent_ok [OF fd assms(2,3), of c p] hp by simp
qed

section \<open>The claims on the requests\<close>

text \<open>
  C6. The request of \<^verbatim>\<open>_send_command\<close> is a function of the command and the params alone,
  not of the state of the client: it has the id 1, the given method, and the params
  \<^verbatim>\<open>{"ble_mac": "0"}\<close> when the caller's params are \<^verbatim>\<open>None\<close> (also omitted) or the empty
  dict, and the caller's params otherwise. A call that reaches its try block (the client
  holds a socket, or the implicit connect succeeded) and whose send succeeds hands to the
  network exactly one datagram more than were sent when the try block started, and that
  datagram is this request, serialised, for the host and port of the client. No call
  hands more to the network than this datagram and, before it, the probe of an implicit
  connect. The serialisation uses the separators \<^verbatim>\<open>,\<close> and \<^verbatim>\<open>:\<close> alone: the datagram has
  exactly the space characters of the strings of the request.
\<close>

theorem send_command_request:
  "request_params None = [(''ble_mac'', JStr ''0'')] \<and>
   request_params (Some []) = [(''ble_mac'', JStr ''0'')] \<and>
   request_params (Some (kv # kvs)) = kv # kvs \<and>
   build_request command params =
     JObj [(''id'', JInt 1), (''method'', JStr command),
           (''params'', JObj (request_params params))] \<and>
   ((sock w = None \<longrightarrow> fst (connect w) = Returned True) \<and>
    fst (next_fault (getsockname_faults (entry_state w))) = None \<and>
    fst (next_fault (sendto_faults (entry_state w))) = None \<longrightarrow>
      sent (snd (send_command command params w)) =
        sent (entry_state w) @
        [(dumps (JObj [(''id'', JInt 1), (''method'', JStr command),
                       (''params'', JObj (request_params params))]), host w, port w)]) \<and>
   (sent (snd (send_command command params w)) = sent w \<or>
    sent (snd (send_command command params w)) =
      sent w @ [(dumps (build_request command params), host w, port w)] \<or>
    sent (snd (send_command command params w)) =
      sent w @ [(dumps (build_request CMD_GET_DEVICE None), host w, port w)] \<or>
    sent (snd (send_command command params w)) =
      sent w @ [(dumps (build_request CMD_GET_DEVICE None), host w, port w),
                (dumps (build_request command params), host w, port w)]) \<and>
   dumps (build_request command params) =
     ''{'' @ dumps_str ''id'' @ '':1,'' @ dumps_str ''method'' @ '':'' @ dumps_str command @
     '','' @ dumps_str ''params'' @ '':'' @ dumps (JObj (request_params params)) @ ''}'' \<and>
   count_list (dumps (build_request command params)) (CHR 0x20) =
     count_list command (CHR 0x20) + spaces_in (JObj (request_params params))"
proof -
  have d1: "dumps_int 1 = ''1''"
    by (simp add: dumps_int_def digits.simps)
  have ser: "dumps (build_request command params) =
     ''{'' @ dumps_str ''id'' @ '':1,'' @ dumps_str ''method'' @ '':'' @ dumps_str command @
     '','' @ dumps_str ''params'' @ '':'' @ dumps (JObj (request_params params)) @ ''}''"
    by (simp add: build_request_def d1)
  have cnt: "count_list (dumps (build_request command params)) (CHR 0x20) =
     count_list command (CHR 0x20) + spaces_in (JObj (request_params params))"
    by (simp only: count_dumps) (simp add: build_request_def)
  have pin: "sent (snd (send_command command params w)) =
        sent (entry_state w) @
        [(dumps (JObj [(''id'', JInt 1), (''method'', JStr command),
                       (''params'', JObj (request_params params))]), host w, port w)]"
    if "(sock w = None \<longrightarrow> fst (connect w) = Returned True) \<and>
        fst (next_fault (getsockname_faults (entry_state w))) = None \<and>
        fst (next_fault (sendto_faults (entry_state w))) = None"
  proof -
    from that have r: "sock w = None \<longrightarrow> fst (connect w) = Returned True"
      and g: "fst (next_fault (getsockname_faults (entry_state w))) = None"
      and t: "fst (next_fault (sendto_faults (entry_state w))) = None"
      by simp_all
    show ?thesis
      using send_command_sent_ok [OF r g t, of command params]
      by (simp only: build_message_def build_request_def)
  qed
  have rp: "request_params None = [(''ble_mac'', JStr ''0'')] \<and>
   request_params (Some []) = [(''ble_mac'', JStr ''0'')] \<and>
   request_params (Some (kv # kvs)) = kv # kvs \<and>
   build_request command params =
     JObj [(''id'', JInt 1), (''method'', JStr command),
           (''params'', JObj (request_params params))]"
    by (simp add: request_params_def build_request_def)
  have dis: "sent (snd (send_command command params w)) = sent w \<or>
    sent (snd (send_command command params w)) =
      sent w @ [(dumps (build_request command params), host w, port w)] \<or>
    sent (snd (send_command command params w)) =
      sent w @ [(dumps (build_request CMD_GET_DEVICE None), host w, port w)] \<or>
    sent (snd (send_command command params w)) =
      sent w @ [(dumps (build_request CMD_GET_DEVICE None), host w, port w),
                (dumps (build_request command params), host w, port w)]"
    using send_command_sent [of command params w]
    by (simp only: build_message_def)
  from rp pin dis ser cnt show ?thesis
    by blast
qed

text \<open>The datagrams of two calls on a client that holds a socket, the second call after
  the first, and the datagrams of a call that connects first: every one has the id 1.\<close>

theorem send_command_request_witness:
  "sent (snd (send_command ''Bat.GetStatus'' (Some [(''id'', JInt 0)])
           (snd (send_command ''Marstek.GetDevice'' None
              ((new_api ''192.168.1.50'' 30000 30000)\<lparr>sock := Some 0\<rparr>))))) =
     [(''{\"id\":1,\"method\":\"Marstek.GetDevice\",\"params\":{\"ble_mac\":\"0\"}}'',
       ''192.168.1.50'', 30000),
      (''{\"id\":1,\"method\":\"Bat.GetStatus\",\"params\":{\"id\":0}}'',
       ''192.168.1.50'', 30000)] \<and>
   sent (snd (send_command ''ES.GetMode'' (Some [])
           ((new_api ''192.168.1.50'' 30000 30000)
              \<lparr>recv_script :=
                 [Datagram (Parses (JObj [(''result'',
                                            JObj [(''device'', JStr ''VenusE'')])]))]\<rparr>))) =
     [(''{\"id\":1,\"method\":\"Marstek.GetDevice\",\"params\":{\"ble_mac\":\"0\"}}'',
       ''192.168.1.50'', 30000),
      (''{\"id\":1,\"method\":\"ES.GetMode\",\"params\":{\"ble_mac\":\"0\"}}'',
       ''192.168.1.50'', 30000)]"
proof -
  let ?a = "(new_api ''192.168.1.50'' 30000 30000)\<lparr>sock := Some 0\<rparr>"
  let ?b = "snd (send_command ''Marstek.GetDevice'' None ?a)"
  let ?d = "(new_api ''192.168.1.50'' 30000 30000)
              \<lparr>recv_script :=
                 [Datagram (Parses (JObj [(''result'',
                                            JObj [(''device'', JStr ''VenusE'')])]))]\<rparr>"
  let ?kv = "(''id'', JInt 0)"
  have hb: "(sock ?b = None \<longrightarrow> fst (connect ?b) = Returned True) \<and>
      fst (next_fault (getsockname_faults (entry_state ?b))) = None \<and>
      fst (next_fault (sendto_faults (entry_state ?b))) = None"
    by code_simp
  have hd: "(sock ?d = None \<longrightarrow> fst (connect ?d) = Returned True) \<and>
      fst (next_fault (getsockname_faults (entry_state ?d))) = None \<and>
      fst (next_fault (sendto_faults (entry_state ?d))) = None"
    by code_simp
  have pb: "sent (snd (send_command ''Bat.GetStatus'' (Some [(''id'', JInt 0)]) ?b)) =
        sent (entry_state ?b) @
        [(dumps (JObj [(''id'', JInt 1), (''method'', JStr ''Bat.GetStatus''),
                       (''params'', JObj (request_params (Some [(''id'', JInt 0)])))]),
          host ?b, port ?b)]"
    using send_command_request [of ?kv "[]" "''Bat.GetStatus''" "Some [(''id'', JInt 0)]" ?b] hb
    by blast
  have pd: "sent (snd (send_command ''ES.GetMode'' (Some []) ?d)) =
        sent (entry_state ?d) @
        [(dumps (JObj [(''id'', JInt 1), (''method'', JStr ''ES.GetMode''),
                       (''params'', JObj (request_params (Some [])))]),
          host ?d, port ?d)]"
    using send_command_request [of ?kv "[]" "''ES.GetMode''" "Some []" ?d] hd
    by blast
  have vb: "sent (entry_state ?b) @
        [(dumps (JObj [(''id'', JInt 1), (''method'', JStr ''Bat.GetStatus''),
                       (''params'', JObj (request_params (Some [(''id'', JInt 0)])))]),
          host ?b, port ?b)] =
     [(''{\"id\":1,\"method\":\"Marstek.GetDevice\",\"params\":{\"ble_mac\":\"0\"}}'',
       ''192.168.1.50'', 30000),
      (''{\"id\":1,\"method\":\"Bat.GetStatus\",\"params\":{\"id\":0}}'',
       ''192.168.1.50'', 30000)]"
    by code_simp
  have vd: "sent (entry_state ?d) @
        [(dumps (JObj [(''id'', JInt 1), (''method'', JStr ''ES.GetMode''),
                       (''params'', JObj (request_params (Some [])))]),
          host ?d, port ?d)] =
     [(''{\"id\":1,\"method\":\"Marstek.GetDevice\",\"params\":{\"ble_mac\":\"0\"}}'',
       ''192.168.1.50'', 30000),
      (''{\"id\":1,\"method\":\"ES.GetMode\",\"params\":{\"ble_mac\":\"0\"}}'',
       ''192.168.1.50'', 30000)]"
    by code_simp
  from pb vb pd vd show ?thesis
    by (simp only:)
qed

lemma set_es_mode_snd:
  "snd (set_es_mode mode config w) =
     snd (send_command CMD_ES_SET_MODE (Some (set_mode_params mode config)) w)"
  by (auto simp: set_es_mode_def split: prod.splits res.splits)

text \<open>
  C8. \<^verbatim>\<open>set_es_mode("Manual")\<close> with no override (no config, or a config without the key
  \<^verbatim>\<open>manual_cfg\<close>) builds the params whose config has the keys \<^verbatim>\<open>mode\<close> and \<^verbatim>\<open>manual_cfg\<close>
  and no other, \<^verbatim>\<open>manual_cfg\<close> being the default schedule. A call that reaches the try
  block of \<^verbatim>\<open>_send_command\<close> and whose send succeeds hands to the network exactly one
  datagram more than were sent when the try block started: the \<^verbatim>\<open>ES.SetMode\<close> request
  with these params. No call hands more to the network than this datagram and, before
  it, the probe of an implicit connect.
\<close>

theorem set_es_mode_manual_default:
  assumes "case config of None \<Rightarrow> True | Some cfg \<Rightarrow> map_of cfg ''manual_cfg'' = None"
  shows "set_mode_params ''Manual'' config =
           [(''id'', JInt 1),
            (''config'', JObj [(''mode'', JStr ''Manual''),
               (''manual_cfg'',
                  JObj [(''time_num'', JInt 1), (''start_time'', JStr ''08:30''),
                        (''end_time'', JStr ''20:30''), (''week_set'', JInt 127),
                        (''power'', JInt 100), (''enable'', JInt 1)])])] \<and>
         ((sock w = None \<longrightarrow> fst (connect w) = Returned True) \<and>
          fst (next_fault (getsockname_faults (entry_state w))) = None \<and>
          fst (next_fault (sendto_faults (entry_state w))) = None \<longrightarrow>
            sent (snd (set_es_mode ''Manual'' config w)) =
              sent (entry_state w) @
              [(dumps (JObj [(''id'', JInt 1), (''method'', JStr ''ES.SetMode''),
                  (''params'', JObj
           [(''id'', JInt 1),
            (''config'', JObj [(''mode'', JStr ''Manual''),
               (''manual_cfg'',
                  JObj [(''time_num'', JInt 1), (''start_time'', JStr ''08:30''),
                        (''end_time'', JStr ''20:30''), (''week_set'', JInt 127),
                        (''power'', JInt 100), (''enable'', JInt 1)])])])]), host w, port w)]) \<and>
         (sent (snd (set_es_mode ''Manual'' config w)) = sent w \<or>
          sent (snd (set_es_mode ''Manual'' config w)) =
            sent w @ [(dumps (build_request CMD_ES_SET_MODE
                                (Some (set_mode_params ''Manual'' config))), host w, port w)] \<or>
          sent (snd (set_es_mode ''Manual'' config w)) =
            sent w @ [(dumps (build_request CMD_GET_DEVICE None), host w, port w)] \<or>
          sent (snd (set_es_mode ''Manual'' config w)) =
            sent w @ [(dumps (build_request CMD_GET_DEVICE None), host w, port w),
                      (dumps (build_request CMD_ES_SET_MODE
                                (Some (set_mode_params ''Manual'' config))), host w, port w)])"
proof -
  have p: "set_mode_params ''Manual'' config =
           [(''id'', JInt 1),
            (''config'', JObj [(''mode'', JStr ''Manual''),
               (''manual_cfg'',
                  JObj [(''time_num'', JInt 1), (''start_time'', JStr ''08:30''),
                        (''end_time'', JStr ''20:30''), (''week_set'', JInt 127),
                        (''power'', JInt 100), (''enable'', JInt 1)])])]"
    using assms
    by (cases config) (simp_all add: set_mode_params_def mode_config_def dict_get_def)
  have req: "build_message CMD_ES_SET_MODE (Some (set_mode_params ''Manual'' config)) =
           dumps (JObj [(''id'', JInt 1), (''method'', JStr ''ES.SetMode''),
                  (''params'', JObj
           [(''id'', JInt 1),
            (''config'', JObj [(''mode'', JStr ''Manual''),
               (''manual_cfg'',
                  JObj [(''time_num'', JInt 1), (''start_time'', JStr ''08:30''),
                        (''end_time'', JStr ''20:30''), (''week_set'', JInt 127),
                        (''power'', JInt 100), (''enable'', JInt 1)])])])])"
    by (simp only: p build_message_def build_request_def)
       (simp add: request_params_def CMD_ES_SET_MODE_def)
  have pin: "sent (snd (set_es_mode ''Manual'' config w)) =
              sent (entry_state w) @
              [(dumps (JObj [(''id'', JInt 1), (''method'', JStr ''ES.SetMode''),
                  (''params'', JObj
           [(''id'', JInt 1),
            (''config'', JObj [(''mode'', JStr ''Manual''),
               (''manual_cfg'',
                  JObj [(''time_num'', JInt 1), (''start_time'', JStr ''08:30''),
                        (''end_time'', JStr ''20:30''), (''week_set'', JInt 127),
                        (''power'', JInt 100), (''enable'', JInt 1)])])])]), host w, port w)]"
    if "(sock w = None \<longrightarrow> fst (connect w) = Returned True) \<and>
        fst (next_fault (getsockname_faults (entry_state w))) = None \<and>
        fst (next_fault (sendto_faults (entry_state w))) = None"
  proof -
    from that have r: "sock w = None \<longrightarrow> fst (connect w) = Returned True"
      and g: "fst (next_fault (getsockname_faults (entry_state w))) = None"
      and t: "fst (next_fault (sendto_faults (entry_state w))) = None"
      by simp_all
    have "sent (snd (set_es_mode ''Manual'' config w)) =
            sent (entry_state w) @
            [(build_message CMD_ES_SET_MODE (Some (set_mode_params ''Manual'' config)),
              host w, port w)]"
      using send_command_sent_ok [OF r g t, of CMD_ES_SET_MODE
              "Some (set_mode_params ''Manual'' config)"]
      by (simp only: set_es_mode_snd)
    then show ?thesis
      by (simp only: req)
  qed
  have dis: "sent (snd (set_es_mode ''Manual'' config w)) = sent w \<or>
          sent (snd (set_es_mode ''Manual'' config w)) =
            sent w @ [(dumps (build_request CMD_ES_SET_MODE
                                (Some (set_mode_params ''Manual'' config))), host w, port w)] \<or>
          sent (snd (set_es_mode ''Manual'' config w)) =
            sent w @ [(dumps (build_request CMD_GET_DEVICE None), host w, port w)] \<or>
          sent (snd (set_es_mode ''Manual'' config w)) =
            sent w @ [(dumps (build_request CMD_GET_DEVICE None), host w, port w),
                      (dumps (build_request CMD_ES_SET_MODE
                                (Some (set_mode_params ''Manual'' config))), host w, port w)]"
    using send_command_sent [of CMD_ES_SET_MODE "Some (set_mode_params ''Manual'' config)" w]
    by (simp only: set_es_mode_snd build_message_def)
  from p pin dis show ?thesis
    by blast
qed

text \<open>The datagram of \<^verbatim>\<open>set_es_mode("Manual")\<close> on a client that holds a socket, without a
  config and with a config that overrides another mode.\<close>

theorem set_es_mode_manual_default_witness:
  "sent (snd (set_es_mode ''Manual'' None
                ((new_api ''192.168.1.50'' 30000 30000)\<lparr>sock := Some 0\<rparr>))) =
     [(''{\"id\":1,\"method\":\"ES.SetMode\",\"params\":{\"id\":1,\"config\":{\"mode\":\"Manual\",\"manual_cfg\":{\"time_num\":1,\"start_time\":\"08:30\",\"end_time\":\"20:30\",\"week_set\":127,\"power\":100,\"enable\":1}}}}'',
       ''192.168.1.50'', 30000)] \<and>
   sent (snd (set_es_mode ''Manual''
                (Some [(''passive_cfg'', JObj [(''power'', JInt 50), (''cd_time'', JInt 60)])])
                ((new_api ''192.168.1.50'' 30000 30000)\<lparr>sock := Some 0\<rparr>))) =
     [(''{\"id\":1,\"method\":\"ES.SetMode\",\"params\":{\"id\":1,\"config\":{\"mode\":\"Manual\",\"manual_cfg\":{\"time_num\":1,\"start_time\":\"08:30\",\"end_time\":\"20:30\",\"week_set\":127,\"power\":100,\"enable\":1}}}}'',
       ''192.168.1.50'', 30000)]"
proof -
  let ?a = "(new_api ''192.168.1.50'' 30000 30000)\<lparr>sock := Some 0\<rparr>"
  let ?c = "Some [(''passive_cfg'', JObj [(''power'', JInt 50), (''cd_time'', JInt 60)])]"
  have h1: "case None :: pydict option of None \<Rightarrow> True
            | Some cfg \<Rightarrow> map_of cfg ''manual_cfg'' = None"
    by simp
  have h2: "case ?c of None \<Rightarrow> True | Some cfg \<Rightarrow> map_of cfg ''manual_cfg'' = None"
    by simp
  have ha: "(sock ?a = None \<longrightarrow> fst (connect ?a) = Returned True) \<and>
      fst (next_fault (getsockname_faults (entry_state ?a))) = None \<and>
      fst (next_fault (sendto_faults (entry_state ?a))) = None"
    by code_simp
  have p1: "sent (snd (set_es_mode ''Manual'' None ?a)) =
              sent (entry_state ?a) @
              [(dumps (JObj [(''id'', JInt 1), (''method'', JStr ''ES.SetMode''),
                  (''params'', JObj
           [(''id'', JInt 1),
            (''config'', JObj [(''mode'', JStr ''Manual''),
               (''manual_cfg'',
                  JObj [(''time_num'', JInt 1), (''start_time'', JStr ''08:30''),
                        (''end_time'', JStr ''20:30''), (''week_set'', JInt 127),
                        (''power'', JInt 100), (''enable'', JInt 1)])])])]), host ?a, port ?a)]"
    using set_es_mode_manual_default [OF h1, of ?a] ha by blast
  have p2: "sent (snd (set_es_mode ''Manual'' ?c ?a)) =
              sent (entry_state ?a) @
              [(dumps (JObj [(''id'', JInt 1), (''method'', JStr ''ES.SetMode''),
                  (''params'', JObj
           [(''id'', JInt 1),
            (''config'', JObj [(''mode'', JStr ''Manual''),
               (''manual_cfg'',
                  JObj [(''time_num'', JInt 1), (''start_time'', JStr ''08:30''),
                        (''end_time'', JStr ''20:30''), (''week_set'', JInt 127),
                        (''power'', JInt 100), (''enable'', JInt 1)])])])]), host ?a, port ?a)]"
    using set_es_mode_manual_default [OF h2, of ?a] ha by blast
  have v: "sent (entry_state ?a) @
              [(dumps (JObj [(''id'', JInt 1), (''method'', JStr ''ES.SetMode''),
                  (''params'', JObj
           [(''id'', JInt 1),
            (''config'', JObj [(''mode'', JStr ''Manual''),
               (''manual_cfg'',
                  JObj [(''time_num'', JInt 1), (''start_time'', JStr ''08:30''),
                        (''end_time'', JStr ''20:30''), (''week_set'', JInt 127),
                        (''power'', JInt 100), (''enable'', JInt 1)])])])]), host ?a, port ?a)] =
     [(''{\"id\":1,\"method\":\"ES.SetMode\",\"params\":{\"id\":1,\"config\":{\"mode\":\"Manual\",\"manual_cfg\":{\"time_num\":1,\"start_time\":\"08:30\",\"end_time\":\"20:30\",\"week_set\":127,\"power\":100,\"enable\":1}}}}'',
       ''192.168.1.50'', 30000)]"
    by code_simp
  from p1 p2 v show ?thesis
    by (simp only:)
qed

section \<open>The claims that the code does not meet as stated\<close>

text \<open>
  C3. The claim fails: \<^verbatim>\<open>set_es_mode\<close> has no check of the mode. With the mode
  \<^verbatim>\<open>Eco\<close>, which is none of the four, a client that holds a socket sends the
  \<^verbatim>\<open>ES.SetMode\<close> request, and returns \<^verbatim>\<open>True\<close> when the device acknowledges it.
\<close>

theorem set_es_mode_unknown_mode_counterexample:
  "''Eco'' \<notin> set ES_MODES \<and>
   sent (snd (set_es_mode ''Eco'' None
                ((new_api ''192.168.1.50'' 30000 30000)
                   \<lparr>sock := Some 0,
                     recv_script := [Datagram (Parses
                        (JObj [(''id'', JInt 1),
                               (''result'', JObj [(''set_result'', JBool True)])]))]\<rparr>))) =
     [(''{\"id\":1,\"method\":\"ES.SetMode\",\"params\":{\"id\":1,\"config\":{\"mode\":\"Eco\"}}}'',
       ''192.168.1.50'', 30000)] \<and>
   fst (set_es_mode ''Eco'' None
                ((new_api ''192.168.1.50'' 30000 30000)
                   \<lparr>sock := Some 0,
                     recv_script := [Datagram (Parses
                        (JObj [(''id'', JInt 1),
                               (''result'', JObj [(''set_result'', JBool True)])]))]\<rparr>)) =
     Returned True"
  by code_simp

text \<open>
  C3 as the code has it. For a mode that is none of the four, \<^verbatim>\<open>set_es_mode\<close> builds the
  params whose config holds the key \<^verbatim>\<open>mode\<close> alone, and a client that holds a socket on
  which the send succeeds sends the \<^verbatim>\<open>ES.SetMode\<close> request with them. The rejection is
  made by the caller: \<^verbatim>\<open>async_select_option\<close> returns on such an option without a call of
  \<^verbatim>\<open>set_es_mode\<close>, and the state is unchanged.
\<close>

theorem set_es_mode_unknown_mode:
  assumes "mode \<notin> set ES_MODES"
    and "sock w = Some fd"
    and "fst (next_fault (getsockname_faults w)) = None"
    and "fst (next_fault (sendto_faults w)) = None"
  shows "set_mode_params mode config = [(''id'', JInt 1), (''config'', JObj [(''mode'', JStr mode)])] \<and>
         sent (snd (set_es_mode mode config w)) =
           sent w @ [(dumps (build_request CMD_ES_SET_MODE
                        (Some [(''id'', JInt 1), (''config'', JObj [(''mode'', JStr mode)])])),
                      host w, port w)] \<and>
         async_select_option mode w = (Returned (), w)"
proof -
  have p: "set_mode_params mode config =
             [(''id'', JInt 1), (''config'', JObj [(''mode'', JStr mode)])]"
    using assms(1) by (auto simp: set_mode_params_def mode_config_def ES_MODES_def)
  have "snd (set_es_mode mode config w) =
          snd (send_try CMD_ES_SET_MODE (Some (set_mode_params mode config)) w)"
    using assms(2) by (simp add: set_es_mode_snd send_command_held)
  then have "sent (snd (set_es_mode mode config w)) =
          sent w @ [(build_message CMD_ES_SET_MODE (Some (set_mode_params mode config)),
                     host w, port w)]"
    using send_try_sent_ok [OF assms(2,3,4)] by simp
  with p assms(1) show ?thesis
    by (simp add: build_message_def async_select_option_def)
qed

theorem set_es_mode_unknown_mode_witness:
  "set_mode_params ''Eco'' None = [(''id'', JInt 1), (''config'', JObj [(''mode'', JStr ''Eco'')])] \<and>
   async_select_option ''Eco'' ((new_api ''192.168.1.50'' 30000 30000)\<lparr>sock := Some 0\<rparr>) =
     (Returned (), (new_api ''192.168.1.50'' 30000 30000)\<lparr>sock := Some 0\<rparr>)"
proof -
  let ?w = "(new_api ''192.168.1.50'' 30000 30000)\<lparr>sock := Some 0\<rparr>"
  have h1: "''Eco'' \<notin> set ES_MODES" by code_simp
  have h2: "sock ?w = Some 0" by code_simp
  have h3: "fst (next_fault (getsockname_faults ?w)) = None" by code_simp
  have h4: "fst (next_fault (sendto_faults ?w)) = None" by code_simp
  show ?thesis
    using set_es_mode_unknown_mode [OF h1 h2 h3 h4, of None] by blast
qed

lemma connect_one_socket:
  assumes "one_socket w" and "sock w = None"
  shows "one_socket (snd (connect w))"
proof (cases "fst (next_fault (socket_faults w))")
  case (Some e)
  then have "keeps w (snd (connect w))" by (rule connect_no_socket)
  with assms(1) show ?thesis by (simp add: one_socket_def keeps_def)
next
  case None
  have "os_open w = []"
    using assms by (simp add: one_socket_def)
  then show ?thesis
    using connect_new_socket(1,2) [OF None] by (simp add: one_socket_def)
qed

lemma disconnect_one_socket:
  assumes "one_socket w"
  shows "one_socket (snd (disconnect w))"
  using assms
  by (cases "sock w"; cases "next_fault (close_faults w)")
     (auto simp: disconnect_def sock_close_def one_socket_def split: option.splits)

lemma send_command_one_socket:
  assumes "one_socket w"
  shows "one_socket (snd (send_command c p w))"
proof -
  have k: "one_socket v \<Longrightarrow> one_socket (snd (send_try c p v))" for v
    using send_try_keeps [of v c p] by (simp add: one_socket_def keeps_def)
  show ?thesis
  proof (cases "sock w")
    case None
    then have "one_socket (snd (connect w))"
      using assms connect_one_socket by blast
    then show ?thesis
      using k [of "snd (connect w)"] None
      by (simp add: send_command_snd entry_state_def)
  next
    case (Some fd)
    then show ?thesis
      using k [OF assms] by (simp add: send_command_held)
  qed
qed

text \<open>
  C4. The claim fails: \<^verbatim>\<open>connect\<close> creates a socket on every call. A client that is
  connected (socket 0) and connects again holds socket 1 afterwards, and socket 0, which
  no \<^verbatim>\<open>close\<close> was called on, is open beside it.
\<close>

theorem connect_twice_counterexample:
  "fst (connect ((new_api ''192.168.1.50'' 30000 30000)
          \<lparr>recv_script :=
             [Datagram (Parses (JObj [(''result'', JObj [(''device'', JStr ''VenusE'')])])),
              Datagram (Parses (JObj [(''result'', JObj [(''device'', JStr ''VenusE'')])]))]\<rparr>))
     = Returned True \<and>
   sock (snd (connect ((new_api ''192.168.1.50'' 30000 30000)
          \<lparr>recv_script :=
             [Datagram (Parses (JObj [(''result'', JObj [(''device'', JStr ''VenusE'')])])),
              Datagram (Parses (JObj [(''result'', JObj [(''device'', JStr ''VenusE'')])]))]\<rparr>)))
     = Some 0 \<and>
   sock (snd (connect (snd (connect ((new_api ''192.168.1.50'' 30000 30000)
          \<lparr>recv_script :=
             [Datagram (Parses (JObj [(''result'', JObj [(''device'', JStr ''VenusE'')])])),
              Datagram (Parses (JObj [(''result'', JObj [(''device'', JStr ''VenusE'')])]))]\<rparr>)))))
     = Some 1 \<and>
   os_open (snd (connect (snd (connect ((new_api ''192.168.1.50'' 30000 30000)
          \<lparr>recv_script :=
             [Datagram (Parses (JObj [(''result'', JObj [(''device'', JStr ''VenusE'')])])),
              Datagram (Parses (JObj [(''result'', JObj [(''device'', JStr ''VenusE'')])]))]\<rparr>)))))
     = [0, 1]"
  by code_simp

text \<open>
  C4 as the code has it. \<^verbatim>\<open>connect\<close> reuses nothing: a call that obtains a socket stores
  the new one as the handle of the client and leaves every open socket open. That the only
  open socket is the one the client holds is preserved by \<^verbatim>\<open>disconnect\<close>, by a
  \<^verbatim>\<open>connect\<close> on a client that holds no socket and by \<^verbatim>\<open>_send_command\<close> (which connects
  only then), hence by every sequence of \<^verbatim>\<open>connect\<close> and \<^verbatim>\<open>disconnect\<close> in which \<^verbatim>\<open>connect\<close>
  is called only on a client that holds no socket; at most one socket is open then.
\<close>

theorem connect_disconnect_one_socket:
  "(fst (next_fault (socket_faults w)) = None \<longrightarrow>
      sock (snd (connect w)) = Some (created w) \<and>
      os_open (snd (connect w)) = os_open w @ [created w]) \<and>
   (one_socket w \<and> connects_unheld cs w \<longrightarrow>
      one_socket (run cs w) \<and> length (os_open (run cs w)) \<le> 1) \<and>
   (one_socket w \<longrightarrow> one_socket (snd (send_command command params w)))"
proof (intro conjI impI)
  assume "fst (next_fault (socket_faults w)) = None"
  then show "sock (snd (connect w)) = Some (created w)"
    and "os_open (snd (connect w)) = os_open w @ [created w]"
    by (rule connect_new_socket)+
next
  assume "one_socket w"
  then show "one_socket (snd (send_command command params w))"
    by (rule send_command_one_socket)
next
  have inv: "one_socket v \<Longrightarrow> connects_unheld cs v \<Longrightarrow> one_socket (run cs v)" for v
  proof (induction cs v rule: run.induct)
    case (1 w)
    then show ?case by simp
  next
    case (2 cs w)
    then show ?case by (simp add: connect_one_socket)
  next
    case (3 cs w)
    then show ?case by (simp add: disconnect_one_socket)
  qed
  assume a: "one_socket w \<and> connects_unheld cs w"
  then have o: "one_socket (run cs w)" using inv by blast
  then show "one_socket (run cs w)" .
  from o show "length (os_open (run cs w)) \<le> 1"
    by (simp add: one_socket_def split: option.splits)
qed

theorem connect_disconnect_one_socket_witness:
  "one_socket (run [Connect, Disconnect, Connect]
     ((new_api ''192.168.1.50'' 30000 30000)
          \<lparr>recv_script :=
             [Datagram (Parses (JObj [(''result'', JObj [(''device'', JStr ''VenusE'')])])),
              Datagram (Parses (JObj [(''result'', JObj [(''device'', JStr ''VenusE'')])]))]\<rparr>)) \<and>
   sock (snd (connect (new_api ''192.168.1.50'' 30000 30000))) = Some 0 \<and>
   one_socket (snd (send_command ''Bat.GetStatus'' (Some [(''id'', JInt 0)])
                      (new_api ''192.168.1.50'' 30000 30000)))"
proof -
  let ?fresh = "new_api ''192.168.1.50'' 30000 30000"
  let ?replied = "?fresh
          \<lparr>recv_script :=
             [Datagram (Parses (JObj [(''result'', JObj [(''device'', JStr ''VenusE'')])])),
              Datagram (Parses (JObj [(''result'', JObj [(''device'', JStr ''VenusE'')])]))]\<rparr>"
  have h1: "one_socket ?replied \<and> connects_unheld [Connect, Disconnect, Connect] ?replied"
    by code_simp
  have h2: "fst (next_fault (socket_faults ?fresh)) = None" by code_simp
  have h3: "one_socket ?fresh" by code_simp
  have c0: "created ?fresh = 0" by code_simp
  have "one_socket (run [Connect, Disconnect, Connect] ?replied)"
    using connect_disconnect_one_socket [of ?replied "[Connect, Disconnect, Connect]"] h1 by blast
  moreover have "sock (snd (connect ?fresh)) = Some 0"
    using connect_disconnect_one_socket [of ?fresh] h2 c0 by simp
  moreover have "one_socket (snd (send_command ''Bat.GetStatus'' (Some [(''id'', JInt 0)]) ?fresh))"
    using connect_disconnect_one_socket [of ?fresh] h3 by blast
  ultimately show ?thesis by blast
qed

text \<open>
  C5. The claim fails: \<^verbatim>\<open>set_es_mode\<close> reads \<^verbatim>\<open>set_result\<close> in whatever
  \<^verbatim>\<open>_send_command\<close> returns. A reply \<^verbatim>\<open>{"set_result": true}\<close> has no result object and is
  passed through whole, and \<^verbatim>\<open>set_es_mode\<close> returns \<^verbatim>\<open>True\<close>.
\<close>

theorem set_es_mode_passthrough_counterexample:
  "map_of [(''set_result'', JBool True)] ''result'' = None \<and>
   fst (set_es_mode ''Auto'' None
          ((new_api ''192.168.1.50'' 30000 30000)
             \<lparr>sock := Some 0,
               recv_script := [Datagram (Parses (JObj [(''set_result'', JBool True)]))]\<rparr>))
     = Returned True"
  by code_simp

text \<open>
  C5 as the code has it. Whenever \<^verbatim>\<open>_send_command\<close> returns \<^verbatim>\<open>None\<close> or a dict (the result
  object of the reply, or the whole reply when it has neither \<^verbatim>\<open>result\<close> nor \<^verbatim>\<open>error\<close>),
  \<^verbatim>\<open>set_es_mode\<close> returns a boolean, and it returns \<^verbatim>\<open>True\<close> exactly when that dict has
  \<^verbatim>\<open>set_result\<close> equal to the boolean \<^verbatim>\<open>True\<close>: \<^verbatim>\<open>None\<close>, a missing field, \<^verbatim>\<open>False\<close> and
  every other value give \<^verbatim>\<open>False\<close>.
\<close>

theorem set_es_mode_result:
  assumes "fst (send_command CMD_ES_SET_MODE (Some (set_mode_params mode config)) w)
             = Returned result"
    and "result = JNull \<or> (\<exists>kvs. result = JObj kvs)"
  shows "fst (set_es_mode mode config w) =
           Returned (\<exists>kvs. result = JObj kvs \<and> map_of kvs ''set_result'' = Some (JBool True))"
proof -
  obtain w1 where s: "send_command CMD_ES_SET_MODE (Some (set_mode_params mode config)) w
                        = (Returned result, w1)"
    using assms(1)
    by (cases "send_command CMD_ES_SET_MODE (Some (set_mode_params mode config)) w") simp
  from assms(2) show ?thesis
  proof
    assume "result = JNull"
    then show ?thesis by (simp add: set_es_mode_def s)
  next
    assume "\<exists>kvs. result = JObj kvs"
    then obtain kvs where k: "result = JObj kvs" ..
    show ?thesis
    proof (cases "map_of kvs ''set_result''")
      case None
      then show ?thesis
        by (simp add: set_es_mode_def s k dict_get_def)
    next
      case (Some v)
      then have "kvs \<noteq> []" by auto
      with Some show ?thesis
        by (simp add: set_es_mode_def s k dict_get_def)
    qed
  qed
qed

theorem set_es_mode_result_witness:
  "fst (set_es_mode ''Passive''
          (Some [(''passive_cfg'', JObj [(''power'', JInt 50), (''cd_time'', JInt 60)])])
          ((new_api ''192.168.1.50'' 30000 30000)
             \<lparr>sock := Some 0,
               recv_script := [Datagram (Parses
                 (JObj [(''id'', JInt 1),
                        (''result'', JObj [(''set_result'', JBool True)])]))]\<rparr>))
     = Returned True \<and>
   fst (set_es_mode ''Passive'' None
          ((new_api ''192.168.1.50'' 30000 30000)
             \<lparr>sock := Some 0,
               recv_script := [Datagram (Parses
                 (JObj [(''id'', JInt 1),
                        (''result'', JObj [(''set_result'', JInt 1)])]))]\<rparr>))
     = Returned False \<and>
   fst (set_es_mode ''Passive'' None
          ((new_api ''192.168.1.50'' 30000 30000)\<lparr>sock := Some 0\<rparr>))
     = Returned False"
proof -
  let ?cfg = "Some [(''passive_cfg'', JObj [(''power'', JInt 50), (''cd_time'', JInt 60)])]"
  let ?a = "(new_api ''192.168.1.50'' 30000 30000)
             \<lparr>sock := Some 0,
               recv_script := [Datagram (Parses
                 (JObj [(''id'', JInt 1),
                        (''result'', JObj [(''set_result'', JBool True)])]))]\<rparr>"
  let ?b = "(new_api ''192.168.1.50'' 30000 30000)
             \<lparr>sock := Some 0,
               recv_script := [Datagram (Parses
                 (JObj [(''id'', JInt 1),
                        (''result'', JObj [(''set_result'', JInt 1)])]))]\<rparr>"
  let ?d = "(new_api ''192.168.1.50'' 30000 30000)\<lparr>sock := Some 0\<rparr>"
  have a1: "fst (send_command CMD_ES_SET_MODE (Some (set_mode_params ''Passive'' ?cfg)) ?a)
              = Returned (JObj [(''set_result'', JBool True)])"
    by code_simp
  have a2: "JObj [(''set_result'', JBool True)] = JNull \<or>
            (\<exists>kvs. JObj [(''set_result'', JBool True)] = JObj kvs)"
    by simp
  have b1: "fst (send_command CMD_ES_SET_MODE (Some (set_mode_params ''Passive'' None)) ?b)
              = Returned (JObj [(''set_result'', JInt 1)])"
    by code_simp
  have b2: "JObj [(''set_result'', JInt 1)] = JNull \<or>
            (\<exists>kvs. JObj [(''set_result'', JInt 1)] = JObj kvs)"
    by simp
  have d1: "fst (send_command CMD_ES_SET_MODE (Some (set_mode_params ''Passive'' None)) ?d)
              = Returned JNull"
    by code_simp
  have d2: "JNull = JNull \<or> (\<exists>kvs. JNull = JObj kvs)"
    by simp
  show ?thesis
    using set_es_mode_result [OF a1 a2] set_es_mode_result [OF b1 b2]
      set_es_mode_result [OF d1 d2]
    by simp
qed

text \<open>Outside of that: a reply that is a JSON array is passed through by
  \<^verbatim>\<open>_send_command\<close>, a list has no \<^verbatim>\<open>get\<close>, and \<^verbatim>\<open>set_es_mode\<close>, which has no handler,
  raises.\<close>

lemma set_es_mode_array_reply_raises:
  "fst (set_es_mode ''Auto'' None
          ((new_api ''192.168.1.50'' 30000 30000)
             \<lparr>sock := Some 0, recv_script := [Datagram (Parses (JArr [JInt 1]))]\<rparr>))
     = Raised AttributeError"
  by code_simp

end
